theory Spec2Isabelle
  imports Main "HOL-Library.Word" "HOL-Library.AList"
begin

section \<open>Go strings (package strings, strconv, fmt) as byte lists\<close>

text \<open>
  A Go string is its list of bytes. \<open>Cut s sep\<close> finds the first occurrence of \<open>sep\<close> in \<open>s\<close>
  and returns what stands before and after it, as \<open>strings.Index\<close> locates it; the empty
  separator occurs at the start of every string. \<open>ToLower\<close> maps the letters \<open>A\<close> to \<open>Z\<close>
  and leaves every other byte, as \<open>strings.ToLower\<close> does on ASCII. The code only compares
  its result with \<open>latest\<close> and \<open>current\<close>; the two runes outside ASCII whose lower case is an
  ASCII letter give \<open>i\<close> and \<open>k\<close>, which neither word has, so the comparison is the same on
  every string. \<open>Itoa\<close> is the verb \<open>%d\<close>.
\<close>

definition HasPrefix :: "string \<Rightarrow> string \<Rightarrow> bool" where
  "HasPrefix s p = (take (length p) s = p)"

definition TrimPrefix :: "string \<Rightarrow> string \<Rightarrow> string" where
  "TrimPrefix s p = (if HasPrefix s p then drop (length p) s else s)"

fun Cut :: "string \<Rightarrow> string \<Rightarrow> (string \<times> string) option" where
  "Cut [] sep = (if sep = [] then Some ([], []) else None)"
| "Cut (c # t) sep =
     (if HasPrefix (c # t) sep then Some ([], drop (length sep) (c # t))
      else (case Cut t sep of None \<Rightarrow> None | Some (b, a) \<Rightarrow> Some (c # b, a)))"

definition Contains :: "string \<Rightarrow> string \<Rightarrow> bool" where
  "Contains s sub = (Cut s sub \<noteq> None)"

definition ToLowerByte :: "char \<Rightarrow> char" where
  "ToLowerByte c =
     (case map_of (zip ''ABCDEFGHIJKLMNOPQRSTUVWXYZ'' ''abcdefghijklmnopqrstuvwxyz'') c of
        Some l \<Rightarrow> l
      | None \<Rightarrow> c)"

definition ToLower :: "string \<Rightarrow> string" where
  "ToLower s = map ToLowerByte s"

fun itoa_nat :: "nat \<Rightarrow> string" where
  "itoa_nat n = (if n < 10 then [''0123456789'' ! n] else itoa_nat (n div 10) @ [''0123456789'' ! (n mod 10)])"

declare itoa_nat.simps [simp del]

definition Itoa :: "int \<Rightarrow> string" where
  "Itoa i = (if i < 0 then CHR ''-'' # itoa_nat (nat (- i)) else itoa_nat (nat i))"

text \<open>
  \<open>strconv.Atoi\<close> with an \<open>int\<close> of 64 bits: an optional sign, then decimal digits only
  and at least one, and a value within the range of \<open>int64\<close>; \<open>None\<close> is the error.
\<close>

definition digitVal :: "char \<Rightarrow> nat option" where
  "digitVal c = map_of (zip ''0123456789'' [0, 1, 2, 3, 4, 5, 6, 7, 8, 9]) c"

fun parseDigits :: "string \<Rightarrow> nat \<Rightarrow> nat option" where
  "parseDigits [] acc = Some acc"
| "parseDigits (c # cs) acc =
     (case digitVal c of None \<Rightarrow> None | Some d \<Rightarrow> parseDigits cs (10 * acc + d))"

definition Atoi :: "string \<Rightarrow> int option" where
  "Atoi s =
     (let neg = (case s of c # t \<Rightarrow> c = CHR ''-'' | [] \<Rightarrow> False);
          ds = (case s of c # t \<Rightarrow> (if c = CHR ''-'' \<or> c = CHR ''+'' then t else s) | [] \<Rightarrow> s)
      in if ds = [] then None
         else (case parseDigits ds 0 of
                 None \<Rightarrow> None
               | Some n \<Rightarrow>
                   if neg then (if int n \<le> 9223372036854775808 then Some (- int n) else None)
                   else (if int n \<le> 9223372036854775807 then Some (int n) else None)))"

text \<open>
  \<open>runeLen s\<close> is the size that \<open>utf8.DecodeRuneInString\<close> returns on a non-empty string: the
  length of a well-formed UTF-8 sequence at its start, and 1 for any other byte.
  \<open>explode s n\<close> cuts \<open>s\<close> into \<open>n\<close> pieces, one rune each but the last, which is the rest.
  \<open>genSplit\<close> is the function behind \<open>Split\<close> and \<open>SplitN\<close>; its loop stops at the first
  failed search, so that the length of the string bounds the number of its rounds when
  the count is negative.
\<close>

definition runeLen :: "string \<Rightarrow> nat" where
  "runeLen s =
     (let b = (\<lambda>i. (of_char (s ! i) :: nat));
          cont = (\<lambda>i. 128 \<le> b i \<and> b i \<le> 191);
          n = length s;
          b0 = b 0
      in if 194 \<le> b0 \<and> b0 \<le> 223 then (if 2 \<le> n \<and> cont 1 then 2 else 1)
         else if 224 \<le> b0 \<and> b0 \<le> 239 then
           (if 3 \<le> n \<and> (if b0 = 224 then 160 \<le> b 1 \<and> b 1 \<le> 191
                          else if b0 = 237 then 128 \<le> b 1 \<and> b 1 \<le> 159 else cont 1) \<and> cont 2
            then 3 else 1)
         else if 240 \<le> b0 \<and> b0 \<le> 244 then
           (if 4 \<le> n \<and> (if b0 = 240 then 144 \<le> b 1 \<and> b 1 \<le> 191
                          else if b0 = 244 then 128 \<le> b 1 \<and> b 1 \<le> 143 else cont 1) \<and> cont 2 \<and> cont 3
            then 4 else 1)
         else 1)"


function RuneCountInString :: "string \<Rightarrow> nat" where
  "RuneCountInString s = (if s = [] then 0 else Suc (RuneCountInString (drop (runeLen s) s)))"
  by pat_completeness auto
termination
  by (relation "measure length") (auto simp: runeLen_def Let_def)

declare RuneCountInString.simps [simp del]

fun explode :: "string \<Rightarrow> nat \<Rightarrow> string list" where
  "explode s 0 = []"
| "explode s (Suc 0) = [s]"
| "explode s (Suc (Suc k)) = take (runeLen s) s # explode (drop (runeLen s) s) (Suc k)"

fun splitLoop :: "string \<Rightarrow> string \<Rightarrow> nat \<Rightarrow> string list" where
  "splitLoop s sep 0 = [s]"
| "splitLoop s sep (Suc k) =
     (case Cut s sep of None \<Rightarrow> [s] | Some (b, a) \<Rightarrow> b # splitLoop a sep k)"

definition genSplit :: "string \<Rightarrow> string \<Rightarrow> int \<Rightarrow> string list" where
  "genSplit s sep n =
     (if n = 0 then []
      else if sep = [] then
        explode s (if n < 0 \<or> n > int (RuneCountInString s) then RuneCountInString s else nat n)
      else if n < 0 then splitLoop s sep (length s)
      else splitLoop s sep (nat (min n (int (length s) + 1)) - 1))"

definition Split :: "string \<Rightarrow> string \<Rightarrow> string list" where
  "Split s sep = genSplit s sep (- 1)"

definition SplitN :: "string \<Rightarrow> string \<Rightarrow> int \<Rightarrow> string list" where
  "SplitN s sep n = genSplit s sep n"

fun Join :: "string list \<Rightarrow> string \<Rightarrow> string" where
  "Join [] sep = []"
| "Join [x] sep = x"
| "Join (x # y # ys) sep = x @ sep @ Join (y # ys) sep"

section \<open>Version and VersionRange\<close>

text \<open>
  The fields of a \<open>Version\<close> are those of the Go struct; the field \<open>Version\<close> is the full
  version string. The numbers are Go \<open>int\<close>s, which the code only compares.
\<close>

record Version =
  Version :: string
  Major :: int
  Minor :: int
  Patch :: int
  Label :: string

definition ZeroVersion :: Version where
  "ZeroVersion = \<lparr>Version = [], Major = 0, Minor = 0, Patch = 0, Label = []\<rparr>"

definition String :: "Version \<Rightarrow> string" where
  "String v =
     (if Version v \<noteq> [] then Version v
      else let base = ''v'' @ Itoa (Major v) @ ''.'' @ Itoa (Minor v) @ ''.'' @ Itoa (Patch v)
           in if Label v \<noteq> [] then base @ ''-'' @ Label v else base)"

definition IsZero :: "Version \<Rightarrow> bool" where
  "IsZero v = (Version v = [] \<and> Major v = 0 \<and> Minor v = 0 \<and> Patch v = 0)"

definition Compare :: "Version \<Rightarrow> Version \<Rightarrow> int" where
  "Compare v other =
     (if Major v \<noteq> Major other then (if Major v < Major other then - 1 else 1)
      else if Minor v \<noteq> Minor other then (if Minor v < Minor other then - 1 else 1)
      else if Patch v \<noteq> Patch other then (if Patch v < Patch other then - 1 else 1)
      else 0)"

definition IsCompatible :: "Version \<Rightarrow> Version \<Rightarrow> bool" where
  "IsCompatible v other = (if Major v \<noteq> Major other then False else Compare v other \<ge> 0)"

definition ParseVersion :: "string \<Rightarrow> Version" where
  "ParseVersion version =
     (if version = [] then ZeroVersion
      else if ToLower version = ''latest'' \<or> ToLower version = ''current''
        then ZeroVersion\<lparr>Version := version\<rparr>
      else
        let cleanVersion0 = TrimPrefix version ''v'';
            (cleanVersion, label) =
              (if Contains cleanVersion0 ''-''
               then (let parts = SplitN cleanVersion0 ''-'' 2 in (parts ! 0, parts ! 1))
               else (cleanVersion0, []));
            parts = Split cleanVersion ''.''
        in (case (if length parts > 0 then Atoi (parts ! 0) else Some 0) of
              None \<Rightarrow> ZeroVersion\<lparr>Version := version\<rparr>
            | Some major \<Rightarrow>
                let minor = (if length parts > 1
                             then (case Atoi (parts ! 1) of None \<Rightarrow> 0 | Some n \<Rightarrow> n) else 0);
                    patch = (if length parts > 2
                             then (case Atoi (parts ! 2) of None \<Rightarrow> 0 | Some n \<Rightarrow> n) else 0)
                in \<lparr>Version = version, Major = major, Minor = minor, Patch = patch, Label = label\<rparr>))"

definition NewVersion :: "int \<Rightarrow> int \<Rightarrow> int \<Rightarrow> Version" where
  "NewVersion major minor patch =
     \<lparr>Version = ''v'' @ Itoa major @ ''.'' @ Itoa minor @ ''.'' @ Itoa patch,
      Major = major, Minor = minor, Patch = patch, Label = []\<rparr>"

definition DefaultVersion :: Version where
  "DefaultVersion = \<lparr>Version = ''v1.0.0'', Major = 1, Minor = 0, Patch = 0, Label = []\<rparr>"

record VersionRange =
  Min' :: Version
  Max' :: Version
  Exact :: "Version list"

definition RangeContains :: "VersionRange \<Rightarrow> Version \<Rightarrow> bool" where
  "RangeContains vr version =
     (if length (Exact vr) > 0
      then list_ex (\<lambda>v. Major v = Major version \<and> Minor v = Minor version \<and> Patch v = Patch version) (Exact vr)
      else if \<not> IsZero (Min' vr) \<and> Compare version (Min' vr) < 0 then False
      else if \<not> IsZero (Max' vr) \<and> Compare version (Max' vr) > 0 then False
      else True)"


definition RangeString :: "VersionRange \<Rightarrow> string" where
  "RangeString vr =
     (if length (Exact vr) > 0 then Join (map String (Exact vr)) '', ''
      else if \<not> IsZero (Min' vr) \<and> \<not> IsZero (Max' vr) then String (Min' vr) @ '' - '' @ String (Max' vr)
      else if \<not> IsZero (Min' vr) then ''>= '' @ String (Min' vr)
      else if \<not> IsZero (Max' vr) then ''<= '' @ String (Max' vr)
      else ''any'')"

section \<open>Detector\<close>

datatype DetectionMethod =
    DetectionMethodAcceptHeader
  | DetectionMethodAPIVersionHeader
  | DetectionMethodXAPIVersionHeader
  | DetectionMethodQueryParameter
  | DetectionMethodURLPath
  | DetectionMethodContextValue
  | DetectionMethodDefault
  | DetectionMethodUnknown int

record DetectionResult =
  ResultVersion :: Version
  Method :: DetectionMethod
  Source :: string

record Detector =
  defaultVersion :: Version
  enabledMethods :: "DetectionMethod list"
  acceptHeaderPrefix :: string
  queryParamName :: string
  contextKey :: string

definition NewDetector :: Detector where
  "NewDetector =
     \<lparr>defaultVersion = DefaultVersion,
      enabledMethods =
        [DetectionMethodAcceptHeader, DetectionMethodAPIVersionHeader,
         DetectionMethodXAPIVersionHeader, DetectionMethodQueryParameter,
         DetectionMethodURLPath, DetectionMethodContextValue, DetectionMethodDefault],
      acceptHeaderPrefix = ''application/vnd.api.v'',
      queryParamName = ''version'',
      contextKey = ''api_version''\<rparr>"

definition WithEnabledMethods :: "DetectionMethod list \<Rightarrow> Detector \<Rightarrow> Detector" where
  "WithEnabledMethods methods d = d\<lparr>enabledMethods := methods\<rparr>"

text \<open>
  What \<open>ctx.Value(key)\<close> holds under a key: a \<open>Version\<close>, a string, or a value of another
  type; \<open>None\<close> is the nil interface of an absent key.
\<close>

datatype CtxValue = CtxVersion Version | CtxString string | CtxOther

text \<open>
  The part of \<open>*http.Request\<close> the detector reads: \<open>Header r k\<close> is \<open>r.Header.Get(k)\<close> and
  \<open>Query r k\<close> is \<open>r.URL.Query().Get(k)\<close> (both the empty string when the key is absent),
  \<open>Path r\<close> is \<open>r.URL.Path\<close> and \<open>Ctx r\<close> is \<open>r.Context().Value\<close>.
\<close>

record Request =
  Header :: "string \<Rightarrow> string"
  Query :: "string \<Rightarrow> string"
  Path :: string
  Ctx :: "string \<Rightarrow> CtxValue option"

definition detectFromAcceptHeader :: "Detector \<Rightarrow> Request \<Rightarrow> Version \<times> string" where
  "detectFromAcceptHeader d r =
     (let accept = Header r ''Accept'' in
      if accept = [] then (ZeroVersion, [])
      else if Contains accept (acceptHeaderPrefix d) then
        (let parts = Split accept (acceptHeaderPrefix d) in
         if length parts > 1 then
           (let versionPart = Split (parts ! 1) ''+'' ! 0;
                version = ParseVersion (''v'' @ versionPart)
            in if \<not> IsZero version then (version, accept) else (ZeroVersion, []))
         else (ZeroVersion, []))
      else (ZeroVersion, []))"

definition detectFromAPIVersionHeader :: "Detector \<Rightarrow> Request \<Rightarrow> Version \<times> string" where
  "detectFromAPIVersionHeader d r =
     (let versionStr = Header r ''API-Version'' in
      if versionStr = [] then (ZeroVersion, [])
      else let version = ParseVersion versionStr
           in if \<not> IsZero version then (version, versionStr) else (ZeroVersion, []))"

definition detectFromXAPIVersionHeader :: "Detector \<Rightarrow> Request \<Rightarrow> Version \<times> string" where
  "detectFromXAPIVersionHeader d r =
     (let versionStr = Header r ''X-API-Version'' in
      if versionStr = [] then (ZeroVersion, [])
      else let version = ParseVersion versionStr
           in if \<not> IsZero version then (version, versionStr) else (ZeroVersion, []))"

definition detectFromQueryParameter :: "Detector \<Rightarrow> Request \<Rightarrow> Version \<times> string" where
  "detectFromQueryParameter d r =
     (let versionStr = Query r (queryParamName d) in
      if versionStr = [] then (ZeroVersion, [])
      else let version = ParseVersion versionStr
           in if \<not> IsZero version then (version, versionStr) else (ZeroVersion, []))"

definition detectFromURLPath :: "Detector \<Rightarrow> Request \<Rightarrow> Version \<times> string" where
  "detectFromURLPath d r =
     (let path = TrimPrefix (Path r) ''/'' in
      if path = [] then (ZeroVersion, [])
      else let parts = Split path ''/'' in
        if length parts > 0 \<and> HasPrefix (parts ! 0) ''v'' then
          (let version = ParseVersion (parts ! 0)
           in if \<not> IsZero version then (version, parts ! 0) else (ZeroVersion, []))
        else (ZeroVersion, []))"

text \<open>The context argument is \<open>None\<close> when the Go context is nil.\<close>

definition detectFromContext ::
  "Detector \<Rightarrow> (string \<Rightarrow> CtxValue option) option \<Rightarrow> Version \<times> string" where
  "detectFromContext d ctx =
     (case ctx of
        None \<Rightarrow> (ZeroVersion, [])
      | Some lookup \<Rightarrow>
          (case lookup (contextKey d) of
             Some (CtxVersion version) \<Rightarrow> (version, contextKey d)
           | Some (CtxString versionStr) \<Rightarrow>
               if versionStr \<noteq> [] then
                 (let version = ParseVersion versionStr
                  in if \<not> IsZero version then (version, versionStr) else (ZeroVersion, []))
               else (ZeroVersion, [])
           | _ \<Rightarrow> (ZeroVersion, [])))"

text \<open>
  The body of the \<open>switch\<close> in \<open>DetectFromHTTPRequest\<close>: the strategy a method selects.
  \<open>DetectionMethodDefault\<close> and values outside the enumeration have no case there.
\<close>

fun detectBy :: "Detector \<Rightarrow> Request \<Rightarrow> DetectionMethod \<Rightarrow> (Version \<times> string) option" where
  "detectBy d r DetectionMethodAcceptHeader = Some (detectFromAcceptHeader d r)"
| "detectBy d r DetectionMethodAPIVersionHeader = Some (detectFromAPIVersionHeader d r)"
| "detectBy d r DetectionMethodXAPIVersionHeader = Some (detectFromXAPIVersionHeader d r)"
| "detectBy d r DetectionMethodQueryParameter = Some (detectFromQueryParameter d r)"
| "detectBy d r DetectionMethodURLPath = Some (detectFromURLPath d r)"
| "detectBy d r DetectionMethodContextValue = Some (detectFromContext d (Some (Ctx r)))"
| "detectBy d r DetectionMethodDefault = None"
| "detectBy d r (DetectionMethodUnknown n) = None"

definition defaultResult :: "Detector \<Rightarrow> DetectionResult" where
  "defaultResult d =
     \<lparr>ResultVersion = defaultVersion d, Method = DetectionMethodDefault, Source = ''default_version''\<rparr>"

fun detectLoop :: "Detector \<Rightarrow> Request \<Rightarrow> DetectionMethod list \<Rightarrow> DetectionResult" where
  "detectLoop d r [] = defaultResult d"
| "detectLoop d r (method # methods) =
     (case detectBy d r method of
        Some (version, source) \<Rightarrow>
          if \<not> IsZero version
          then \<lparr>ResultVersion = version, Method = method, Source = source\<rparr>
          else detectLoop d r methods
      | None \<Rightarrow> detectLoop d r methods)"

definition DetectFromHTTPRequest :: "Detector \<Rightarrow> Request \<Rightarrow> DetectionResult" where
  "DetectFromHTTPRequest d r = detectLoop d r (enabledMethods d)"

definition DetectFromContext :: "Detector \<Rightarrow> (string \<Rightarrow> CtxValue option) option \<Rightarrow> DetectionResult" where
  "DetectFromContext d ctx =
     (let (version, source) = detectFromContext d ctx in
      if \<not> IsZero version
      then \<lparr>ResultVersion = version, Method = DetectionMethodContextValue, Source = source\<rparr>
      else defaultResult d)"


section \<open>Errors\<close>

text \<open>
  The error values of the package: \<open>Errorf\<close> is an error made by \<open>fmt.Errorf\<close> (a message
  only); the others are the typed errors of \<open>errors.go\<close> with their fields in declaration
  order. \<open>Panic\<close> is a run-time panic, which is not a returned error.
\<close>

datatype error =
    Errorf string
  | VersionError string Version "Version list" string string
  | ComponentNotFoundError string string
  | MigrationError string Version Version string "error option"
  | Panic string

definition NewVersionError :: "string \<Rightarrow> Version \<Rightarrow> Version list \<Rightarrow> string \<Rightarrow> error" where
  "NewVersionError component requested supported message =
     VersionError component requested supported message ''VERSION_NOT_SUPPORTED''"

definition NewComponentNotFoundError :: "string \<Rightarrow> string \<Rightarrow> error" where
  "NewComponentNotFoundError component message = ComponentNotFoundError component message"

definition NewMigrationError :: "string \<Rightarrow> Version \<Rightarrow> Version \<Rightarrow> string \<Rightarrow> error option \<Rightarrow> error" where
  "NewMigrationError component from_v to_v message cause = MigrationError component from_v to_v message cause"

text \<open>The \<open>Error()\<close> string of an error.\<close>

fun ErrorString :: "error \<Rightarrow> string" where
  "ErrorString (Errorf message) = message"
| "ErrorString (VersionError c requested supported message code) =
     ''version error in component '' @ [CHR 0x27] @ c @ [CHR 0x27] @ '': '' @ message @
     '' (requested: '' @ String requested @ '', supported: ['' @ Join (map String supported) '', '' @ ''])''"
| "ErrorString (ComponentNotFoundError c message) =
     (if message \<noteq> [] then ''component not found: '' @ c @ '' - '' @ message
      else ''component not found: '' @ c)"
| "ErrorString (MigrationError c from_v to_v message None) =
     ''migration error in component '' @ [CHR 0x27] @ c @ [CHR 0x27] @ '' from '' @ String from_v @
     '' to '' @ String to_v @ '': '' @ message"
| "ErrorString (MigrationError c from_v to_v message (Some cause)) =
     ''migration error in component '' @ [CHR 0x27] @ c @ [CHR 0x27] @ '' from '' @ String from_v @
     '' to '' @ String to_v @ '': '' @ message @ '' (cause: '' @ ErrorString cause @ '')''"
| "ErrorString (Panic message) = message"

fun GetVersionErrorCode :: "error \<Rightarrow> string" where
  "GetVersionErrorCode (VersionError c r s m code) = code"
| "GetVersionErrorCode (ComponentNotFoundError c m) = ''COMPONENT_NOT_FOUND''"
| "GetVersionErrorCode (MigrationError c f t m cause) = ''MIGRATION_ERROR''"
| "GetVersionErrorCode e = ''UNKNOWN_ERROR''"

section \<open>Migrator\<close>

text \<open>
  The values an \<open>interface{}\<close> holds, as far as the migrator tells them apart: the nil
  interface, scalars, a \<open>map[string]interface{}\<close>, a map of another type, a struct (its
  fields in declaration order: name, \<open>json\<close> tag, whether \<open>CanInterface\<close> holds, value) and
  pointers.
\<close>

datatype GoValue =
    VNil
  | VBool bool
  | VInt int
  | VString string
  | VMap "string \<Rightarrow> GoValue option"
  | VOtherMap
  | VStruct "(string \<times> string \<times> bool \<times> GoValue) list"
  | VPtr GoValue
  | VNilPtr

datatype Kind = Invalid | Ptr | Struct | Map | OtherKind

fun kindOf :: "GoValue \<Rightarrow> Kind" where
  "kindOf VNil = Invalid"
| "kindOf (VMap m) = Map"
| "kindOf VOtherMap = Map"
| "kindOf (VStruct fs) = Struct"
| "kindOf (VPtr p) = Ptr"
| "kindOf VNilPtr = Ptr"
| "kindOf v = OtherKind"

text \<open>\<open>reflect.Value.Elem\<close> of a pointer: the zero \<open>Value\<close> (kind \<open>Invalid\<close>) for a nil pointer.\<close>

fun Elem :: "GoValue \<Rightarrow> GoValue" where
  "Elem (VPtr p) = p"
| "Elem v = VNil"

datatype MigrationStrategy =
    MigrationStrategyNone
  | MigrationStrategyAutomatic
  | MigrationStrategyCustom
  | MigrationStrategyFallback
  | MigrationStrategyUnknown int

fun StrategyString :: "MigrationStrategy \<Rightarrow> string" where
  "StrategyString MigrationStrategyNone = ''none''"
| "StrategyString MigrationStrategyAutomatic = ''automatic''"
| "StrategyString MigrationStrategyCustom = ''custom''"
| "StrategyString MigrationStrategyFallback = ''fallback''"
| "StrategyString (MigrationStrategyUnknown n) = ''unknown''"

type_synonym MigrationFunc = "Version \<Rightarrow> Version \<Rightarrow> GoValue \<Rightarrow> error + GoValue"

record FieldMapping =
  FromField :: string
  ToField :: string
  Transform :: string
  DefaultValue :: GoValue
  Required :: bool

record VersionMigration =
  FromVersion :: Version
  ToVersion :: Version
  Strategy :: MigrationStrategy
  FieldMappings :: "FieldMapping list"
  CustomFunc :: "MigrationFunc option"
  Reversible :: bool
  Description :: string
  Examples :: "string \<Rightarrow> GoValue option"

record Migrator =
  component :: string
  migrations :: "string \<Rightarrow> VersionMigration option"

definition NewMigrator :: "string \<Rightarrow> Migrator" where
  "NewMigrator c = \<lparr>component = c, migrations = Map.empty\<rparr>"

definition migrationKey :: "Version \<Rightarrow> Version \<Rightarrow> string" where
  "migrationKey from_v to_v = String from_v @ ''-'' @ String to_v"

definition reverseTransform :: "string \<Rightarrow> string" where
  "reverseTransform transform = []"

definition reverseFieldMappings :: "FieldMapping list \<Rightarrow> FieldMapping list" where
  "reverseFieldMappings mappings =
     map (\<lambda>mapping.
            \<lparr>FromField = ToField mapping,
             ToField = FromField mapping,
             Transform = reverseTransform (Transform mapping),
             DefaultValue = VNil,
             Required = Required mapping\<rparr>) mappings"

text \<open>The migration argument is \<open>None\<close> for a nil pointer.\<close>

definition AddMigration :: "Migrator \<Rightarrow> VersionMigration option \<Rightarrow> error option \<times> Migrator" where
  "AddMigration m migration =
     (case migration of
        None \<Rightarrow> (Some (Errorf ''migration cannot be nil''), m)
      | Some mig \<Rightarrow>
          let key = migrationKey (FromVersion mig) (ToVersion mig);
              m1 = m\<lparr>migrations := (migrations m)(key \<mapsto> mig)\<rparr>
          in if Reversible mig then
               (let reverseKey = migrationKey (ToVersion mig) (FromVersion mig);
                    reverseMigration =
                      \<lparr>FromVersion = ToVersion mig,
                       ToVersion = FromVersion mig,
                       Strategy = Strategy mig,
                       FieldMappings = reverseFieldMappings (FieldMappings mig),
                       CustomFunc = None,
                       Reversible = False,
                       Description = ''Reverse migration: '' @ Description mig,
                       Examples = Map.empty\<rparr>
                in (None, m1\<lparr>migrations := (migrations m1)(reverseKey \<mapsto> reverseMigration)\<rparr>))
             else (None, m1))"

definition AddCustomMigration ::
  "Migrator \<Rightarrow> Version \<Rightarrow> Version \<Rightarrow> MigrationFunc option \<Rightarrow> bool \<Rightarrow> string \<Rightarrow> error option \<times> Migrator" where
  "AddCustomMigration m from_v to_v migrationFunc reversible description =
     AddMigration m (Some
       \<lparr>FromVersion = from_v, ToVersion = to_v, Strategy = MigrationStrategyCustom,
        FieldMappings = [], CustomFunc = migrationFunc, Reversible = reversible,
        Description = description, Examples = Map.empty\<rparr>)"

definition AddAutomaticMigration ::
  "Migrator \<Rightarrow> Version \<Rightarrow> Version \<Rightarrow> FieldMapping list \<Rightarrow> bool \<Rightarrow> error option \<times> Migrator" where
  "AddAutomaticMigration m from_v to_v fieldMappings reversible =
     AddMigration m (Some
       \<lparr>FromVersion = from_v, ToVersion = to_v, Strategy = MigrationStrategyAutomatic,
        FieldMappings = fieldMappings, CustomFunc = None, Reversible = reversible,
        Description = ''Automatic migration from '' @ String from_v @ '' to '' @ String to_v,
        Examples = Map.empty\<rparr>)"

text \<open>
  \<open>transformValue\<close> formats with \<open>fmt.Sprintf("%v", value)\<close> under the hook \<open>string\<close>; the
  formatter is the parameter \<open>sprintf\<close>. No hook returns an error.
\<close>

definition transformValue :: "(GoValue \<Rightarrow> string) \<Rightarrow> GoValue \<Rightarrow> string \<Rightarrow> error + GoValue" where
  "transformValue sprintf v transform =
     (if transform = [] then Inr v
      else if transform = ''string'' then Inr (VString (sprintf v))
      else if transform = ''int'' then (case v of VString str \<Rightarrow> Inr (VString str) | _ \<Rightarrow> Inr v)
      else Inr v)"

fun applyFieldMappings ::
  "(GoValue \<Rightarrow> string) \<Rightarrow> FieldMapping list \<Rightarrow> (string \<Rightarrow> GoValue option) \<Rightarrow>
     (string \<Rightarrow> GoValue option) \<Rightarrow> error + (string \<Rightarrow> GoValue option)" where
  "applyFieldMappings sprintf [] inputMap resultMap = Inr resultMap"
| "applyFieldMappings sprintf (mapping # rest) inputMap resultMap =
     (case inputMap (FromField mapping) of
        Some v \<Rightarrow>
          (case transformValue sprintf v (Transform mapping) of
             Inl err \<Rightarrow>
               Inl (Errorf (''failed to transform field '' @ FromField mapping @ '': '' @ ErrorString err))
           | Inr transformedValue \<Rightarrow>
               applyFieldMappings sprintf rest inputMap (resultMap(ToField mapping \<mapsto> transformedValue)))
      | None \<Rightarrow>
          if DefaultValue mapping \<noteq> VNil then
            applyFieldMappings sprintf rest inputMap (resultMap(ToField mapping \<mapsto> DefaultValue mapping))
          else if Required mapping then
            Inl (Errorf (''required field '' @ FromField mapping @ '' is missing''))
          else applyFieldMappings sprintf rest inputMap resultMap)"

text \<open>
  The second loop of \<open>migrateMapData\<close> visits every key of the input once and writes it
  to the result when no mapping has it as \<open>FromField\<close>; the keys are distinct, so the
  order of the visit does not show in the result.
\<close>

definition copyUnmapped ::
  "FieldMapping list \<Rightarrow> (string \<Rightarrow> GoValue option) \<Rightarrow> (string \<Rightarrow> GoValue option) \<Rightarrow>
     (string \<Rightarrow> GoValue option)" where
  "copyUnmapped mappings inputMap resultMap =
     (\<lambda>k. case inputMap k of
            Some v \<Rightarrow> if list_ex (\<lambda>mapping. FromField mapping = k) mappings then resultMap k else Some v
          | None \<Rightarrow> resultMap k)"

definition migrateMapData :: "(GoValue \<Rightarrow> string) \<Rightarrow> VersionMigration \<Rightarrow> GoValue \<Rightarrow> error + GoValue" where
  "migrateMapData sprintf migration input =
     (case input of
        VMap inputMap \<Rightarrow>
          (case applyFieldMappings sprintf (FieldMappings migration) inputMap Map.empty of
             Inl err \<Rightarrow> Inl err
           | Inr resultMap \<Rightarrow> Inr (VMap (copyUnmapped (FieldMappings migration) inputMap resultMap)))
      | _ \<Rightarrow> Inl (Errorf ''input is not a map[string]interface{}''))"

definition structToMap :: "GoValue \<Rightarrow> error + (string \<Rightarrow> GoValue option)" where
  "structToMap input =
     (let val = (if kindOf input = Ptr then Elem input else input) in
      case val of
        VStruct flds \<Rightarrow>
          Inr (foldl (\<lambda>result (name, jsonTag, canInterface, fieldValue).
                        if \<not> canInterface then result
                        else result((if jsonTag \<noteq> [] \<and> jsonTag \<noteq> ''-'' then jsonTag else name) \<mapsto> fieldValue))
                 Map.empty flds)
      | _ \<Rightarrow> Inl (Errorf ''input is not a struct''))"

definition migrateStructData :: "(GoValue \<Rightarrow> string) \<Rightarrow> VersionMigration \<Rightarrow> GoValue \<Rightarrow> error + GoValue" where
  "migrateStructData sprintf migration input =
     (case structToMap input of
        Inl err \<Rightarrow> Inl (Errorf (''failed to convert struct to map: '' @ ErrorString err))
      | Inr inputMap \<Rightarrow> migrateMapData sprintf migration (VMap inputMap))"

definition performAutomaticMigration ::
  "(GoValue \<Rightarrow> string) \<Rightarrow> Migrator \<Rightarrow> VersionMigration \<Rightarrow> GoValue \<Rightarrow> error + GoValue" where
  "performAutomaticMigration sprintf m migration input =
     (if input = VNil then Inr VNil
      else
        let inputVal = (if kindOf input = Ptr then Elem input else input) in
        if kindOf inputVal \<noteq> Struct \<and> kindOf inputVal \<noteq> Map then Inr input
        else
          (case (if kindOf inputVal = Map then migrateMapData sprintf migration input
                 else migrateStructData sprintf migration input) of
             Inl err \<Rightarrow>
               Inl (NewMigrationError (component m) (FromVersion migration) (ToVersion migration)
                      ''automatic migration failed'' (Some err))
           | Inr result \<Rightarrow> Inr result))"

definition performFallbackMigration ::
  "(GoValue \<Rightarrow> string) \<Rightarrow> Migrator \<Rightarrow> VersionMigration \<Rightarrow> GoValue \<Rightarrow> error + GoValue" where
  "performFallbackMigration sprintf m migration input = performAutomaticMigration sprintf m migration input"

definition Migrate ::
  "(GoValue \<Rightarrow> string) \<Rightarrow> Migrator \<Rightarrow> Version \<Rightarrow> Version \<Rightarrow> GoValue \<Rightarrow> error + GoValue" where
  "Migrate sprintf m from_v to_v input =
     (if Compare from_v to_v = 0 then Inr input
      else
        (case migrations m (migrationKey from_v to_v) of
           None \<Rightarrow> Inl (NewMigrationError (component m) from_v to_v ''no migration path available'' None)
         | Some migration \<Rightarrow>
             (case Strategy migration of
                MigrationStrategyNone \<Rightarrow>
                  Inl (NewMigrationError (component m) from_v to_v ''migration not supported'' None)
              | MigrationStrategyCustom \<Rightarrow>
                  (case CustomFunc migration of
                     None \<Rightarrow>
                       Inl (NewMigrationError (component m) from_v to_v
                              ''custom migration function not provided'' None)
                   | Some f \<Rightarrow> f from_v to_v input)
              | MigrationStrategyAutomatic \<Rightarrow> performAutomaticMigration sprintf m migration input
              | MigrationStrategyFallback \<Rightarrow> performFallbackMigration sprintf m migration input
              | MigrationStrategyUnknown n \<Rightarrow>
                  Inl (NewMigrationError (component m) from_v to_v
                         (''unsupported migration strategy: '' @ StrategyString (Strategy migration)) None))))"

definition CanMigrate :: "Migrator \<Rightarrow> Version \<Rightarrow> Version \<Rightarrow> bool" where
  "CanMigrate m from_v to_v =
     (if Compare from_v to_v = 0 then True
      else migrations m (migrationKey from_v to_v) \<noteq> None)"


section \<open>DefaultMetricsCollector\<close>

text \<open>
  The counters are \<open>int64\<close>: 64-bit words read as signed integers, whose increment wraps.
  The three Go maps of a \<open>ComponentMetrics\<close> are association lists with distinct keys: an
  update keeps the position of a key that is present and appends a new key, and a
  \<open>range\<close> loop visits the entries in the order of the list (Go leaves the order open;
  only the totals are independent of it). The timestamp that \<open>time.Now()\<close> yields is the
  argument \<open>now\<close>.
\<close>

type_synonym int64 = "64 word"

record ComponentMetrics =
  MetricsComponent :: string
  VersionMetrics :: "(string \<times> int64) list"
  LastAccessed :: "(string \<times> string) list"
  ErrorCounts :: "(string \<times> int64) list"

record DefaultMetricsCollector =
  metrics :: "string \<Rightarrow> ComponentMetrics option"

definition NewDefaultMetricsCollector :: DefaultMetricsCollector where
  "NewDefaultMetricsCollector = \<lparr>metrics = Map.empty\<rparr>"

definition emptyMetrics :: "string \<Rightarrow> ComponentMetrics" where
  "emptyMetrics c = \<lparr>MetricsComponent = c, VersionMetrics = [], LastAccessed = [], ErrorCounts = []\<rparr>"

definition increment :: "string \<Rightarrow> (string \<times> int64) list \<Rightarrow> (string \<times> int64) list" where
  "increment k counts = AList.update k ((case map_of counts k of None \<Rightarrow> 0 | Some n \<Rightarrow> n) + 1) counts"

definition RecordRequest ::
  "DefaultMetricsCollector \<Rightarrow> string \<Rightarrow> Version \<Rightarrow> string \<Rightarrow> DefaultMetricsCollector" where
  "RecordRequest c componentName version now =
     (let cm = (case metrics c componentName of None \<Rightarrow> emptyMetrics componentName | Some cm \<Rightarrow> cm);
          versionStr = String version
      in c\<lparr>metrics := (metrics c)(componentName \<mapsto>
             cm\<lparr>VersionMetrics := increment versionStr (VersionMetrics cm),
                LastAccessed := AList.update versionStr now (LastAccessed cm)\<rparr>)\<rparr>)"

definition RecordError ::
  "DefaultMetricsCollector \<Rightarrow> string \<Rightarrow> Version \<Rightarrow> error \<Rightarrow> DefaultMetricsCollector" where
  "RecordError c componentName version err =
     (let cm = (case metrics c componentName of None \<Rightarrow> emptyMetrics componentName | Some cm \<Rightarrow> cm);
          versionStr = String version
      in c\<lparr>metrics := (metrics c)(componentName \<mapsto> cm\<lparr>ErrorCounts := increment versionStr (ErrorCounts cm)\<rparr>)\<rparr>)"

definition GetMetrics :: "DefaultMetricsCollector \<Rightarrow> string \<Rightarrow> ComponentMetrics option" where
  "GetMetrics c componentName = metrics c componentName"

text \<open>
  A \<open>float64\<close> is kept as the expression that computes it: the conversion of an \<open>int64\<close>,
  a quotient or a product. Nothing in the collector compares or rounds one.
\<close>

datatype float64 = Float64 int | Quotient float64 float64 | Product float64 float64

record VersionUsageStats =
  StatsComponent :: string
  TotalRequests :: int64
  TotalErrors :: int64
  VersionBreakdown :: "(string \<times> float64) list"
  ErrorRate :: float64
  MostUsedVersion :: string
  LeastUsedVersion :: string
  DeprecatedUsage :: "(string \<times> int64) list"
  LastActivity :: string

text \<open>
  The state of the first loop of \<open>GetUsageStats\<close>: \<open>totalRequests\<close>, \<open>mostUsedCount\<close>,
  \<open>leastUsedCount\<close>, \<open>mostUsedVersion\<close>, \<open>leastUsedVersion\<close>, \<open>latestActivity\<close>. Strings
  compare bytewise, as in Go.
\<close>

fun string_less :: "string \<Rightarrow> string \<Rightarrow> bool" where
  "string_less [] [] = False"
| "string_less [] (y # ys) = True"
| "string_less (x # xs) [] = False"
| "string_less (x # xs) (y # ys) =
     ((of_char x :: nat) < of_char y \<or> (x = y \<and> string_less xs ys))"

definition usageStep ::
  "(string \<times> string) list \<Rightarrow> int64 \<times> int64 \<times> int64 \<times> string \<times> string \<times> string \<Rightarrow> string \<times> int64 \<Rightarrow>
     int64 \<times> int64 \<times> int64 \<times> string \<times> string \<times> string" where
  "usageStep lastAccessedMap st entry =
     (case st of (totalRequests, mostUsedCount, leastUsedCount, mostUsedVersion, leastUsedVersion, latestActivity) \<Rightarrow>
      case entry of (version, count) \<Rightarrow>
        let most = (sint count > sint mostUsedCount);
            least = (leastUsedCount = - 1 \<or> sint count < sint leastUsedCount);
            latest = (case map_of lastAccessedMap version of
                        Some lastAccessed \<Rightarrow>
                          if latestActivity = [] \<or> string_less latestActivity lastAccessed
                          then lastAccessed else latestActivity
                      | None \<Rightarrow> latestActivity)
        in (totalRequests + count,
            if most then count else mostUsedCount,
            if least then count else leastUsedCount,
            if most then version else mostUsedVersion,
            if least then version else leastUsedVersion,
            latest))"

definition GetUsageStats :: "DefaultMetricsCollector \<Rightarrow> string \<Rightarrow> VersionUsageStats option" where
  "GetUsageStats c componentName =
     (case GetMetrics c componentName of
        None \<Rightarrow> None
      | Some m \<Rightarrow>
          (case foldl (usageStep (LastAccessed m)) (0, 0, - 1, [], [], []) (VersionMetrics m) of
             (totalRequests, mostUsedCount, leastUsedCount, mostUsedVersion, leastUsedVersion, latestActivity) \<Rightarrow>
               let totalErrors = foldl (\<lambda>total (version, count). total + count) 0 (ErrorCounts m) in
               Some \<lparr>StatsComponent = componentName,
                     TotalRequests = totalRequests,
                     TotalErrors = totalErrors,
                     VersionBreakdown =
                       (if sint totalRequests > 0
                        then map (\<lambda>(version, count).
                                    (version, Product (Quotient (Float64 (sint count)) (Float64 (sint totalRequests)))
                                                (Float64 100))) (VersionMetrics m)
                        else []),
                     ErrorRate =
                       (if sint totalRequests > 0
                        then Quotient (Float64 (sint totalErrors)) (Float64 (sint totalRequests))
                        else Float64 0),
                     MostUsedVersion = mostUsedVersion,
                     LeastUsedVersion = leastUsedVersion,
                     DeprecatedUsage = [],
                     LastActivity = latestActivity\<rparr>))"

section \<open>Manager\<close>

record DeprecationInfo =
  DeprecatedVersion :: Version
  DeprecatedAt :: string
  SunsetAt :: string
  Reason :: string
  Replacement :: Version

record VersionConstraint =
  Component :: string
  Requires :: VersionRange
  Conflicts :: "Version list"

text \<open>
  A \<open>VersionedComponent\<close> is an interface; a component is the record of what its methods
  answer. \<open>Deprecatable\<close> holds \<open>IsVersionDeprecated\<close> and \<open>GetDeprecationInfo\<close> when the
  component also implements \<open>DeprecatableComponent\<close>.
\<close>

record VersionedComponent =
  Name :: string
  Type :: string
  SupportedVersions :: "Version list"
  GetDefaultVersion :: Version
  IsVersionSupported :: "Version \<Rightarrow> bool"
  Deprecatable :: "((Version \<Rightarrow> bool) \<times> (Version \<Rightarrow> DeprecationInfo option)) option"

record VersionedComponentMeta =
  MetaName :: string
  MetaType :: string
  MetaSupportedVersions :: "Version list"
  MetaDefaultVersion :: Version
  DeprecatedVersions :: "DeprecationInfo list"
  Constraints :: "VersionConstraint list"
  CreatedAt :: string
  UpdatedAt :: string

record Manager =
  components :: "string \<Rightarrow> VersionedComponent option"
  componentMeta :: "string \<Rightarrow> VersionedComponentMeta option"
  constraints :: "string \<Rightarrow> VersionConstraint list option"
  metricsCollector :: "DefaultMetricsCollector option"
  detector :: Detector

definition NewManager :: Manager where
  "NewManager =
     \<lparr>components = Map.empty, componentMeta = Map.empty, constraints = Map.empty,
      metricsCollector = None, detector = NewDetector\<rparr>"

definition WithMetricsCollector :: "DefaultMetricsCollector \<Rightarrow> Manager \<Rightarrow> Manager" where
  "WithMetricsCollector collector m = m\<lparr>metricsCollector := Some collector\<rparr>"

definition quoted :: "string \<Rightarrow> string" where
  "quoted s = [CHR 0x27] @ s @ [CHR 0x27]"

text \<open>The component argument is \<open>None\<close> for a nil interface; \<open>now\<close> is the formatted clock.\<close>

definition Register :: "Manager \<Rightarrow> VersionedComponent option \<Rightarrow> string \<Rightarrow> error option \<times> Manager" where
  "Register m newComponent now =
     (case newComponent of
        None \<Rightarrow> (Some (Errorf ''component cannot be nil''), m)
      | Some c \<Rightarrow>
          let name = Name c in
          if name = [] then (Some (Errorf ''component name cannot be empty''), m)
          else if components m name \<noteq> None then
            (Some (Errorf (''component with name '' @ quoted name @ '' already registered'')), m)
          else
            let meta =
                  \<lparr>MetaName = name,
                   MetaType = Type c,
                   MetaSupportedVersions = SupportedVersions c,
                   MetaDefaultVersion = GetDefaultVersion c,
                   DeprecatedVersions =
                     (case Deprecatable c of
                        None \<Rightarrow> []
                      | Some (isVersionDeprecated, getDeprecationInfo) \<Rightarrow>
                          concat (map (\<lambda>version.
                                         if isVersionDeprecated version
                                         then (case getDeprecationInfo version of Some depInfo \<Rightarrow> [depInfo] | None \<Rightarrow> [])
                                         else []) (SupportedVersions c))),
                   Constraints = [],
                   CreatedAt = now,
                   UpdatedAt = now\<rparr>
            in (None, m\<lparr>components := (components m)(name \<mapsto> c),
                         componentMeta := (componentMeta m)(name \<mapsto> meta)\<rparr>))"

definition RegisterWithConstraints ::
  "Manager \<Rightarrow> VersionedComponent option \<Rightarrow> VersionConstraint list \<Rightarrow> string \<Rightarrow> error option \<times> Manager" where
  "RegisterWithConstraints m newComponent cs now =
     (case Register m newComponent now of
        (Some err, m') \<Rightarrow> (Some err, m')
      | (None, m') \<Rightarrow>
          (case newComponent of
             None \<Rightarrow> (Some (Panic ''nil pointer dereference''), m')
           | Some c \<Rightarrow>
               let name = Name c;
                   m'' = m'\<lparr>constraints := (constraints m')(name \<mapsto> cs)\<rparr>
               in (case componentMeta m'' name of
                     None \<Rightarrow> (Some (Panic ''nil pointer dereference''), m'')
                   | Some meta \<Rightarrow>
                       (None, m''\<lparr>componentMeta := (componentMeta m'')(name \<mapsto> meta\<lparr>Constraints := cs\<rparr>)\<rparr>))))"

definition Unregister :: "Manager \<Rightarrow> string \<Rightarrow> error option \<times> Manager" where
  "Unregister m name =
     (if components m name = None then (Some (Errorf (''component '' @ quoted name @ '' not found'')), m)
      else (None, m\<lparr>components := (components m)(name := None),
                    componentMeta := (componentMeta m)(name := None),
                    constraints := (constraints m)(name := None)\<rparr>))"

text \<open>
  \<open>Get\<close> returns the component or the error, and the manager with its collector after
  \<open>RecordRequest\<close>. \<open>%v\<close> prints a slice of strings between brackets, separated by spaces.
\<close>

definition Get :: "Manager \<Rightarrow> string \<Rightarrow> Version \<Rightarrow> string \<Rightarrow> (error + VersionedComponent) \<times> Manager" where
  "Get m name version now =
     (case components m name of
        None \<Rightarrow> (Inl (Errorf (''component '' @ quoted name @ '' not found'')), m)
      | Some c \<Rightarrow>
          if \<not> IsVersionSupported c version then
            (let supported = SupportedVersions c;
                 supportedStrs = map String supported
             in (Inl (NewVersionError name version supported
                        (''version not supported. Supported versions: ['' @ Join supportedStrs '' '' @ '']'')), m))
          else
            (Inr c,
             (case metricsCollector m of
                None \<Rightarrow> m
              | Some collector \<Rightarrow> m\<lparr>metricsCollector := Some (RecordRequest collector name version now)\<rparr>)))"

definition sameNumbers :: "Version \<Rightarrow> Version \<Rightarrow> bool" where
  "sameNumbers a b = (Major a = Major b \<and> Minor a = Minor b \<and> Patch a = Patch b)"

text \<open>
  \<open>CheckCompatibility\<close> ranges over the map it is given: the association list
  \<open>componentVersions\<close> lists its entries in the order of the visit, and \<open>map_of\<close> looks a
  name up in it. Each function returns the first error found, \<open>None\<close> for none.
\<close>

definition checkConstraint ::
  "(string \<times> Version) list \<Rightarrow> string \<Rightarrow> Version \<Rightarrow> VersionConstraint \<Rightarrow> error option" where
  "checkConstraint componentVersions componentName version constraint =
     (let requiredComponent = Component constraint in
      case map_of componentVersions requiredComponent of
        None \<Rightarrow> None
      | Some requiredVersion \<Rightarrow>
          if \<not> RangeContains (Requires constraint) requiredVersion then
            Some (Errorf (''component '' @ quoted componentName @ '' version '' @ String version @
                          '' requires '' @ quoted requiredComponent @ '' version in range '' @
                          RangeString (Requires constraint) @ '', but got '' @ String requiredVersion))
          else
            (case find (\<lambda>conflictVersion. sameNumbers requiredVersion conflictVersion) (Conflicts constraint) of
               Some conflictVersion \<Rightarrow>
                 Some (Errorf (''component '' @ quoted componentName @ '' version '' @ String version @
                               '' conflicts with '' @ quoted requiredComponent @ '' version '' @
                               String conflictVersion))
             | None \<Rightarrow> None))"

fun checkConstraints ::
  "(string \<times> Version) list \<Rightarrow> string \<Rightarrow> Version \<Rightarrow> VersionConstraint list \<Rightarrow> error option" where
  "checkConstraints componentVersions componentName version [] = None"
| "checkConstraints componentVersions componentName version (constraint # rest) =
     (case checkConstraint componentVersions componentName version constraint of
        Some err \<Rightarrow> Some err
      | None \<Rightarrow> checkConstraints componentVersions componentName version rest)"

fun checkComponents :: "Manager \<Rightarrow> (string \<times> Version) list \<Rightarrow> (string \<times> Version) list \<Rightarrow> error option" where
  "checkComponents m componentVersions [] = None"
| "checkComponents m componentVersions ((componentName, version) # rest) =
     (case constraints m componentName of
        None \<Rightarrow> checkComponents m componentVersions rest
      | Some cs \<Rightarrow>
          (case checkConstraints componentVersions componentName version cs of
             Some err \<Rightarrow> Some err
           | None \<Rightarrow> checkComponents m componentVersions rest))"

definition CheckCompatibility :: "Manager \<Rightarrow> (string \<times> Version) list \<Rightarrow> error option" where
  "CheckCompatibility m componentVersions = checkComponents m componentVersions componentVersions"

section \<open>Sequences of registry operations\<close>

text \<open>
  The three operations that change the registry, with their arguments, and a run of them
  in sequence; each step keeps the manager the operation leaves, also when it fails.
\<close>

datatype ManagerOp =
    OpRegister "VersionedComponent option" string
  | OpRegisterWithConstraints "VersionedComponent option" "VersionConstraint list" string
  | OpUnregister string

fun applyOp :: "Manager \<Rightarrow> ManagerOp \<Rightarrow> Manager" where
  "applyOp m (OpRegister c now) = snd (Register m c now)"
| "applyOp m (OpRegisterWithConstraints c cs now) = snd (RegisterWithConstraints m c cs now)"
| "applyOp m (OpUnregister name) = snd (Unregister m name)"

definition aligned :: "Manager \<Rightarrow> bool" where
  "aligned m =
     (dom (componentMeta m) = dom (components m) \<and> dom (constraints m) \<subseteq> dom (components m))"

text \<open>
  The component of the package's example test: \<open>ExampleUserService\<close> with its name and
  supported versions; \<open>IsVersionSupported\<close> looks for a supported version that compares
  equal, and the default version is the first supported one.
\<close>

definition ExampleUserService :: "string \<Rightarrow> Version \<Rightarrow> Version list \<Rightarrow> VersionedComponent" where
  "ExampleUserService name v vs =
     \<lparr>Name = name, Type = ''service'', SupportedVersions = v # vs, GetDefaultVersion = v,
      IsVersionSupported = (\<lambda>x. list_ex (\<lambda>supported. Compare supported x = 0) (v # vs)),
      Deprecatable = None\<rparr>"

definition usersService :: VersionedComponent where
  "usersService = ExampleUserService ''users'' (NewVersion 1 0 0) [NewVersion 2 0 0]"

section \<open>The reverse field mapping, as the specification words it\<close>

text \<open>
  The specification describes the field mappings of a synthesized reverse migration as
  those of the migration with \<open>FromField\<close> and \<open>ToField\<close> exchanged and the default value
  dropped; \<open>claimedReverseMapping\<close> is that description, to compare with
  \<open>reverseFieldMappings\<close>. \<open>createdMapping\<close> is a mapping with a transform hook, as in the
  package's README, and the two migrations are reversible ones between concrete versions.
\<close>

definition claimedReverseMapping :: "FieldMapping \<Rightarrow> FieldMapping" where
  "claimedReverseMapping mapping =
     mapping\<lparr>FromField := ToField mapping, ToField := FromField mapping, DefaultValue := VNil\<rparr>"

definition createdMapping :: FieldMapping where
  "createdMapping =
     \<lparr>FromField = ''created'', ToField = ''created_at'', Transform = ''string'',
      DefaultValue = VNil, Required = False\<rparr>"

definition reversibleMigration :: "Version \<Rightarrow> Version \<Rightarrow> VersionMigration" where
  "reversibleMigration from_v to_v =
     \<lparr>FromVersion = from_v, ToVersion = to_v, Strategy = MigrationStrategyAutomatic,
      FieldMappings = [createdMapping], CustomFunc = None, Reversible = True,
      Description = ''rename created'', Examples = Map.empty\<rparr>"

section \<open>Violated constraints\<close>

definition NewExactVersions :: "Version list \<Rightarrow> VersionRange" where
  "NewExactVersions versions = \<lparr>Min' = ZeroVersion, Max' = ZeroVersion, Exact = versions\<rparr>"

text \<open>
  A constraint is violated by the versions given when its target component is among
  them and the target's version is outside the required range or has the numbers of a
  conflicting version.
\<close>

definition constraintViolated :: "(string \<times> Version) list \<Rightarrow> VersionConstraint \<Rightarrow> bool" where
  "constraintViolated componentVersions constraint =
     (case map_of componentVersions (Component constraint) of
        None \<Rightarrow> False
      | Some requiredVersion \<Rightarrow>
          \<not> RangeContains (Requires constraint) requiredVersion \<or>
          list_ex (sameNumbers requiredVersion) (Conflicts constraint))"

text \<open>A constraint of \<open>users\<close> on \<open>products\<close>: exactly v1.0.0.\<close>

definition productsV1Only :: VersionConstraint where
  "productsV1Only =
     \<lparr>Component = ''products'', Requires = NewExactVersions [NewVersion 1 0 0], Conflicts = []\<rparr>"

text \<open>A new manager after \<open>RegisterWithConstraints(users, [productsV1Only])\<close>.\<close>

definition constrainedManager :: Manager where
  "constrainedManager =
     snd (RegisterWithConstraints NewManager (Some usersService) [productsV1Only] ''2024-01-01T00:00:00Z'')"

section \<open>Detection: methods that yield a version\<close>

fun DetectionMethodString :: "DetectionMethod \<Rightarrow> string" where
  "DetectionMethodString DetectionMethodAcceptHeader = ''Accept Header''"
| "DetectionMethodString DetectionMethodAPIVersionHeader = ''API-Version Header''"
| "DetectionMethodString DetectionMethodXAPIVersionHeader = ''X-API-Version Header''"
| "DetectionMethodString DetectionMethodQueryParameter = ''Query Parameter''"
| "DetectionMethodString DetectionMethodURLPath = ''URL Path''"
| "DetectionMethodString DetectionMethodContextValue = ''Context Value''"
| "DetectionMethodString DetectionMethodDefault = ''Default''"
| "DetectionMethodString (DetectionMethodUnknown n) = ''Unknown''"

text \<open>A method yields a version on a request when its strategy returns a non-zero one.\<close>

definition yields :: "Detector \<Rightarrow> Request \<Rightarrow> DetectionMethod \<Rightarrow> bool" where
  "yields d r method =
     (case detectBy d r method of Some (version, source) \<Rightarrow> \<not> IsZero version | None \<Rightarrow> False)"

text \<open>
  A request for \<open>/api/users?version=v2.1.0\<close> with the header
  \<open>Accept: application/vnd.api.v2+json\<close> and an empty context.
\<close>

definition queryAndAcceptRequest :: Request where
  "queryAndAcceptRequest =
     \<lparr>Header = (\<lambda>k. if k = ''Accept'' then ''application/vnd.api.v2+json'' else []),
      Query = (\<lambda>k. if k = ''version'' then ''v2.1.0'' else []),
      Path = ''/api/users'',
      Ctx = (\<lambda>k. None)\<rparr>"

section \<open>Sequences of calls on a collector\<close>

text \<open>
  A call of \<open>RecordRequest\<close> (with the clock's reading) or of \<open>RecordError\<close> (with the error)
  for one component and version, and how many of each a sequence holds.
\<close>

datatype MetricsCall = CallRecordRequest string | CallRecordError error

fun applyCall :: "string \<Rightarrow> Version \<Rightarrow> DefaultMetricsCollector \<Rightarrow> MetricsCall \<Rightarrow> DefaultMetricsCollector" where
  "applyCall c v collector (CallRecordRequest now) = RecordRequest collector c v now"
| "applyCall c v collector (CallRecordError err) = RecordError collector c v err"

fun countRequests :: "MetricsCall list \<Rightarrow> nat" where
  "countRequests [] = 0"
| "countRequests (CallRecordRequest now # calls) = Suc (countRequests calls)"
| "countRequests (CallRecordError err # calls) = countRequests calls"

fun countErrors :: "MetricsCall list \<Rightarrow> nat" where
  "countErrors [] = 0"
| "countErrors (CallRecordRequest now # calls) = countErrors calls"
| "countErrors (CallRecordError err # calls) = Suc (countErrors calls)"

section \<open>What a field mapping writes\<close>

text \<open>
  The value a field mapping writes to its destination field, in the specification's
  words: the source field's value after the transform hook when the source field is
  present (the hook \<open>string\<close> formats it, every other hook passes it through), the default
  value when the source field is absent and a default is configured, and nothing
  (\<open>None\<close>) otherwise.
\<close>

definition mappingWrites ::
  "(GoValue \<Rightarrow> string) \<Rightarrow> (string \<Rightarrow> GoValue option) \<Rightarrow> FieldMapping \<Rightarrow> GoValue option" where
  "mappingWrites sprintf inputMap mapping =
     (case inputMap (FromField mapping) of
        Some v \<Rightarrow> Some (if Transform mapping = ''string'' then VString (sprintf v) else v)
      | None \<Rightarrow> if DefaultValue mapping \<noteq> VNil then Some (DefaultValue mapping) else None)"

text \<open>A mapping that cannot be applied: source absent, no default, required.\<close>

definition missingRequired :: "(string \<Rightarrow> GoValue option) \<Rightarrow> FieldMapping \<Rightarrow> bool" where
  "missingRequired inputMap mapping =
     (inputMap (FromField mapping) = None \<and> DefaultValue mapping = VNil \<and> Required mapping)"

text \<open>The field of a migrated map, \<open>None\<close> when the migration failed or the field is absent.\<close>

definition resultField :: "error + GoValue \<Rightarrow> string \<Rightarrow> GoValue option" where
  "resultField res k = (case res of Inr (VMap out) \<Rightarrow> out k | _ \<Rightarrow> None)"

text \<open>
  The migration and the input of the package's example test \<open>ExampleMigrator\<close>, and a
  migration that maps \<open>name\<close> to \<open>role\<close> with an input that has both fields.
\<close>

definition requiredMapping :: "string \<Rightarrow> string \<Rightarrow> FieldMapping" where
  "requiredMapping f t =
     \<lparr>FromField = f, ToField = t, Transform = [], DefaultValue = VNil, Required = True\<rparr>"

definition automaticMigration :: "FieldMapping list \<Rightarrow> VersionMigration" where
  "automaticMigration fieldMappings =
     \<lparr>FromVersion = NewVersion 1 0 0, ToVersion = NewVersion 2 0 0,
      Strategy = MigrationStrategyAutomatic, FieldMappings = fieldMappings, CustomFunc = None,
      Reversible = False, Description = ''Automatic migration from v1.0.0 to v2.0.0'',
      Examples = Map.empty\<rparr>"

definition userMappings :: "FieldMapping list" where
  "userMappings =
     [requiredMapping ''name'' ''display_name'', requiredMapping ''email'' ''email'',
      requiredMapping ''id'' ''user_id'']"

definition userInput :: "string \<Rightarrow> GoValue option" where
  "userInput =
     [''id'' \<mapsto> VInt 123, ''name'' \<mapsto> VString ''John Doe'',
      ''email'' \<mapsto> VString ''john@example.com'', ''role'' \<mapsto> VString ''admin'']"

definition nameAndRole :: "string \<Rightarrow> GoValue option" where
  "nameAndRole = [''name'' \<mapsto> VString ''John Doe'', ''role'' \<mapsto> VString ''admin'']"

section \<open>\<open>ParseVersion\<close>, as the specification words it\<close>

text \<open>
  The specification's description of \<open>ParseVersion\<close>, written with list functions: strip
  one leading \<open>v\<close>; split once at a \<open>-\<close> into the numbers and the label; split the numbers
  at every \<open>.\<close>; the first segment must parse as an integer, or the version is opaque; the
  second and third are 0 when missing (or when they do not parse). \<open>latest\<close> and
  \<open>current\<close>, in any case, are opaque. \<open>ParseVersionLastDash\<close> splits at the last \<open>-\<close>, as the
  specification says; \<open>ParseVersionFirstDash\<close> splits at the first one.
\<close>

fun splitOn :: "char \<Rightarrow> string \<Rightarrow> string list" where
  "splitOn c [] = [[]]"
| "splitOn c (x # xs) =
     (if x = c then [] # splitOn c xs
      else (case splitOn c xs of p # ps \<Rightarrow> (x # p) # ps | [] \<Rightarrow> [[x]]))"

definition stripV :: "string \<Rightarrow> string" where
  "stripV s = (case s of c # t \<Rightarrow> if c = CHR ''v'' then t else s | [] \<Rightarrow> s)"

definition opaqueVersion :: "string \<Rightarrow> Version" where
  "opaqueVersion s = \<lparr>Version = s, Major = 0, Minor = 0, Patch = 0, Label = []\<rparr>"

definition segmentOr0 :: "string list \<Rightarrow> nat \<Rightarrow> int" where
  "segmentOr0 segments i =
     (if i < length segments then (case Atoi (segments ! i) of Some n \<Rightarrow> n | None \<Rightarrow> 0) else 0)"

definition versionOfParts :: "string \<Rightarrow> string \<Rightarrow> string \<Rightarrow> Version" where
  "versionOfParts s numbers label =
     (let segments = splitOn CHR ''.'' numbers in
      case Atoi (hd segments) of
        None \<Rightarrow> opaqueVersion s
      | Some major \<Rightarrow>
          \<lparr>Version = s, Major = major, Minor = segmentOr0 segments 1, Patch = segmentOr0 segments 2,
           Label = label\<rparr>)"

definition ParseVersionLastDash :: "string \<Rightarrow> Version" where
  "ParseVersionLastDash s =
     (if ToLower s = ''latest'' \<or> ToLower s = ''current'' then opaqueVersion s
      else let body = stripV s in
        if CHR ''-'' \<in> set body
        then versionOfParts s (rev (tl (dropWhile (\<lambda>c. c \<noteq> CHR ''-'') (rev body))))
               (rev (takeWhile (\<lambda>c. c \<noteq> CHR ''-'') (rev body)))
        else versionOfParts s body [])"

definition ParseVersionFirstDash :: "string \<Rightarrow> Version" where
  "ParseVersionFirstDash s =
     (if ToLower s = ''latest'' \<or> ToLower s = ''current'' then opaqueVersion s
      else let body = stripV s in
        if CHR ''-'' \<in> set body
        then versionOfParts s (takeWhile (\<lambda>c. c \<noteq> CHR ''-'') body)
               (tl (dropWhile (\<lambda>c. c \<noteq> CHR ''-'') body))
        else versionOfParts s body [])"

section \<open>Evaluations at concrete versions\<close>

text \<open>
  The versions, the component and the migration keys that the examples below use,
  evaluated once.
\<close>

lemma ParseVersion_v123:
  "ParseVersion ''v1.2.3'' = \<lparr>Version = ''v1.2.3'', Major = 1, Minor = 2, Patch = 3, Label = []\<rparr>"
  by code_simp

lemma ParseVersion_v100:
  "ParseVersion ''v1.0.0'' = \<lparr>Version = ''v1.0.0'', Major = 1, Minor = 0, Patch = 0, Label = []\<rparr>"
  by code_simp

lemma ParseVersion_beta:
  "ParseVersion ''v1.0.0-beta'' =
     \<lparr>Version = ''v1.0.0-beta'', Major = 1, Minor = 0, Patch = 0, Label = ''beta''\<rparr>"
  by code_simp

lemma ParseVersion_rc:
  "ParseVersion ''v1.0.0-rc-1'' =
     \<lparr>Version = ''v1.0.0-rc-1'', Major = 1, Minor = 0, Patch = 0, Label = ''rc-1''\<rparr>"
  by code_simp

lemma ParseVersion_latest:
  "ParseVersion ''latest'' = \<lparr>Version = ''latest'', Major = 0, Minor = 0, Patch = 0, Label = []\<rparr>"
  by code_simp

lemma ParseVersion_current:
  "ParseVersion ''current'' = \<lparr>Version = ''current'', Major = 0, Minor = 0, Patch = 0, Label = []\<rparr>"
  by code_simp

lemma NewVersion_100: "NewVersion 1 0 0 = \<lparr>Version = ''v1.0.0'', Major = 1, Minor = 0, Patch = 0, Label = []\<rparr>"
  by code_simp

lemma NewVersion_200: "NewVersion 2 0 0 = \<lparr>Version = ''v2.0.0'', Major = 2, Minor = 0, Patch = 0, Label = []\<rparr>"
  by code_simp

lemma NewVersion_9900: "NewVersion 99 0 0 = \<lparr>Version = ''v99.0.0'', Major = 99, Minor = 0, Patch = 0, Label = []\<rparr>"
  by code_simp

lemma usersService_simps:
  "Name usersService = ''users''"
  "SupportedVersions usersService = [NewVersion 1 0 0, NewVersion 2 0 0]"
  "IsVersionSupported usersService v = (Compare (NewVersion 1 0 0) v = 0 \<or> Compare (NewVersion 2 0 0) v = 0)"
  by (simp_all add: usersService_def ExampleUserService_def)

lemma migrationKey_v1_v2: "migrationKey (NewVersion 1 0 0) (NewVersion 2 0 0) = ''v1.0.0-v2.0.0''"
  by (simp add: migrationKey_def String_def NewVersion_100 NewVersion_200)

lemma migrationKey_v2_v1: "migrationKey (NewVersion 2 0 0) (NewVersion 1 0 0) = ''v2.0.0-v1.0.0''"
  by (simp add: migrationKey_def String_def NewVersion_100 NewVersion_200)

section \<open>Manager: \<open>Get\<close>\<close>

lemma Get_unsupported_version:
  "components m name = Some c \<Longrightarrow> \<not> IsVersionSupported c version \<Longrightarrow>
     Get m name version now =
       (Inl (VersionError name version (SupportedVersions c)
               (''version not supported. Supported versions: ['' @
                  Join (map String (SupportedVersions c)) '' '' @ '']'')
               ''VERSION_NOT_SUPPORTED''), m)"
  by (simp add: Get_def NewVersionError_def Let_def)

lemma Get_supported_version:
  "components m name = Some c \<Longrightarrow> IsVersionSupported c version \<Longrightarrow>
     Get m name version now =
       (Inr c,
        case metricsCollector m of
          None \<Rightarrow> m
        | Some collector \<Rightarrow> m\<lparr>metricsCollector := Some (RecordRequest collector name version now)\<rparr>)"
  by (simp add: Get_def)

text \<open>
  C1. \<open>Get(name, version)\<close> on a name that is not registered fails with a
  \<open>ComponentNotFoundError\<close>; on a registered component that does not support the version it
  fails with a \<open>VersionError\<close> carrying the component's supported versions; otherwise it
  returns the component. The code of \<open>Get\<close> at the name \<open>missing\<close> on a new manager: the
  error is the untyped one of \<open>fmt.Errorf\<close>, for which \<open>GetVersionErrorCode\<close> answers
  \<open>UNKNOWN_ERROR\<close>, and never a \<open>ComponentNotFoundError\<close>. The other two cases are as
  stated, at the component \<open>users\<close> supporting v1.0.0 and v2.0.0.
\<close>

theorem Get_missing_component_error:
  "fst (Get NewManager ''missing'' (NewVersion 1 0 0) now) = Inl (Errorf ''component 'missing' not found'') \<and>
   fst (Get NewManager ''missing'' (NewVersion 1 0 0) now) \<noteq> Inl (NewComponentNotFoundError ''missing'' message) \<and>
   GetVersionErrorCode (Errorf ''component 'missing' not found'') = ''UNKNOWN_ERROR'' \<and>
   fst (Get (snd (Register NewManager (Some usersService) now)) ''users'' (NewVersion 99 0 0) now) =
     Inl (VersionError ''users'' (NewVersion 99 0 0) [NewVersion 1 0 0, NewVersion 2 0 0]
            ''version not supported. Supported versions: [v1.0.0 v2.0.0]'' ''VERSION_NOT_SUPPORTED'') \<and>
   fst (Get (snd (Register NewManager (Some usersService) now)) ''users'' (NewVersion 2 0 0) now) =
     Inr usersService"
  by (simp add: Get_def NewManager_def quoted_def NewComponentNotFoundError_def Register_def
      usersService_simps Let_def NewVersionError_def Compare_def NewVersion_100 NewVersion_200 NewVersion_9900 String_def)

section \<open>Detector: the first enabled method that yields a version\<close>

lemma detectLoop_first:
  "detectLoop d r methods =
     (case find (yields d r) methods of
        Some method \<Rightarrow>
          (case detectBy d r method of
             Some (version, source) \<Rightarrow> \<lparr>ResultVersion = version, Method = method, Source = source\<rparr>
           | None \<Rightarrow> defaultResult d)
      | None \<Rightarrow> defaultResult d)"
  by (induction methods) (auto simp: yields_def split: option.splits)

lemma detect_accept_example:
  "detectFromAcceptHeader NewDetector queryAndAcceptRequest =
     (\<lparr>Version = ''v2'', Major = 2, Minor = 0, Patch = 0, Label = []\<rparr>, ''application/vnd.api.v2+json'')"
  by code_simp

lemma detect_query_example:
  "detectFromQueryParameter (WithEnabledMethods [DetectionMethodQueryParameter] NewDetector) queryAndAcceptRequest =
     (\<lparr>Version = ''v2.1.0'', Major = 2, Minor = 1, Patch = 0, Label = []\<rparr>, ''v2.1.0'')"
  by code_simp

text \<open>
  C2. \<open>DetectFromHTTPRequest\<close> returns the result of the first method, in the configured
  order of the enabled methods, that yields a non-zero version, tagged with that method
  and with the source string of its strategy; when no enabled method yields one it returns
  the default version with the method \<open>Default\<close> and the source \<open>default_version\<close>. (An
  enabled method without a case in the \<open>switch\<close>, as \<open>Default\<close> itself, yields nothing.) On the
  request with the query \<open>version=v2.1.0\<close> and the header
  \<open>Accept: application/vnd.api.v2+json\<close>, the default detector resolves by the Accept
  header, and the detector with the query method alone resolves v2.1.0 by the query.
\<close>

theorem DetectFromHTTPRequest_first_match:
  "DetectFromHTTPRequest d r =
     (case find (yields d r) (enabledMethods d) of
        Some method \<Rightarrow>
          (case detectBy d r method of
             Some (version, source) \<Rightarrow> \<lparr>ResultVersion = version, Method = method, Source = source\<rparr>
           | None \<Rightarrow> defaultResult d)
      | None \<Rightarrow>
          \<lparr>ResultVersion = defaultVersion d, Method = DetectionMethodDefault, Source = ''default_version''\<rparr>) \<and>
   DetectFromHTTPRequest NewDetector queryAndAcceptRequest =
     \<lparr>ResultVersion = \<lparr>Version = ''v2'', Major = 2, Minor = 0, Patch = 0, Label = []\<rparr>,
      Method = DetectionMethodAcceptHeader, Source = ''application/vnd.api.v2+json''\<rparr> \<and>
   DetectionMethodString (Method (DetectFromHTTPRequest NewDetector queryAndAcceptRequest)) = ''Accept Header'' \<and>
   DetectFromHTTPRequest (WithEnabledMethods [DetectionMethodQueryParameter] NewDetector) queryAndAcceptRequest =
     \<lparr>ResultVersion = \<lparr>Version = ''v2.1.0'', Major = 2, Minor = 1, Patch = 0, Label = []\<rparr>,
      Method = DetectionMethodQueryParameter, Source = ''v2.1.0''\<rparr>"
proof -
  have a: "DetectFromHTTPRequest NewDetector queryAndAcceptRequest =
     \<lparr>ResultVersion = \<lparr>Version = ''v2'', Major = 2, Minor = 0, Patch = 0, Label = []\<rparr>,
      Method = DetectionMethodAcceptHeader, Source = ''application/vnd.api.v2+json''\<rparr>"
    by (simp add: DetectFromHTTPRequest_def NewDetector_def detect_accept_example [unfolded NewDetector_def] IsZero_def)
  have b: "DetectFromHTTPRequest (WithEnabledMethods [DetectionMethodQueryParameter] NewDetector) queryAndAcceptRequest =
     \<lparr>ResultVersion = \<lparr>Version = ''v2.1.0'', Major = 2, Minor = 1, Patch = 0, Label = []\<rparr>,
      Method = DetectionMethodQueryParameter, Source = ''v2.1.0''\<rparr>"
    using detect_query_example
    by (simp add: DetectFromHTTPRequest_def WithEnabledMethods_def IsZero_def)
  show ?thesis
    by (simp add: a b) (simp add: DetectFromHTTPRequest_def detectLoop_first defaultResult_def split: option.splits)
qed

section \<open>\<open>ParseVersion\<close>\<close>

text \<open>
  On a separator of one character, the functions of package \<open>strings\<close> are the list
  functions \<open>takeWhile\<close>, \<open>dropWhile\<close> and \<open>splitOn\<close>.
\<close>

lemma HasPrefix_single: "HasPrefix (x # t) [c] = (x = c)"
  by (simp add: HasPrefix_def)

lemma Cut_single:
  "Cut s [c] =
     (if c \<in> set s then Some (takeWhile (\<lambda>x. x \<noteq> c) s, tl (dropWhile (\<lambda>x. x \<noteq> c) s)) else None)"
  by (induction s) (auto simp: HasPrefix_single)

lemma splitOn_notin: "c \<notin> set s \<Longrightarrow> splitOn c s = [s]"
  by (induction s) auto

lemma splitOn_nonempty: "splitOn c s \<noteq> []"
  by (induction s) (auto split: list.splits)

lemma splitOn_first:
  "c \<in> set s \<Longrightarrow>
     splitOn c s = takeWhile (\<lambda>x. x \<noteq> c) s # splitOn c (tl (dropWhile (\<lambda>x. x \<noteq> c) s))"
  by (induction s) (auto split: list.splits simp: splitOn_nonempty)

lemma length_after_first: "c \<in> set s \<Longrightarrow> length (tl (dropWhile (\<lambda>x. x \<noteq> c) s)) < length s"
  by (induction s) auto

lemma splitLoop_single:
  "length s \<le> k \<Longrightarrow> splitLoop s [c] k = splitOn c s"
proof (induction k arbitrary: s)
  case 0
  then show ?case by simp
next
  case (Suc k)
  show ?case
  proof (cases "c \<in> set s")
    case False
    then show ?thesis by (simp add: Cut_single splitOn_notin)
  next
    case True
    from length_after_first [OF True] Suc.prems
    have "length (tl (dropWhile (\<lambda>x. x \<noteq> c) s)) \<le> k" by simp
    from Suc.IH [OF this] True show ?thesis
      by (simp add: Cut_single splitOn_first [OF True])
  qed
qed

lemma Split_single: "Split s [c] = splitOn c s"
  by (simp add: Split_def genSplit_def splitLoop_single)

lemma Contains_single: "Contains s [c] = (c \<in> set s)"
  by (simp add: Contains_def Cut_single)

lemma SplitN_two_single:
  "c \<in> set s \<Longrightarrow>
     SplitN s [c] 2 = [takeWhile (\<lambda>x. x \<noteq> c) s, tl (dropWhile (\<lambda>x. x \<noteq> c) s)]"
proof -
  assume c: "c \<in> set s"
  then have "s \<noteq> []" by auto
  then have "nat (min 2 (int (length s) + 1)) - 1 = Suc 0"
    by (cases s) simp_all
  with c show ?thesis
    by (simp add: SplitN_def genSplit_def Cut_single)
qed

lemma TrimPrefix_v: "TrimPrefix s ''v'' = stripV s"
  by (cases s) (simp_all add: TrimPrefix_def HasPrefix_def stripV_def)

text \<open>
  The indices that \<open>ParseVersion\<close> and the strategies of the detector read are in range:
  \<open>parts[0]\<close> and \<open>parts[1]\<close> after \<open>SplitN(s, "-", 2)\<close> on a string that contains \<open>-\<close>, and
  the first element of a \<open>Split\<close>.
\<close>

lemma SplitN_two_length: "Contains s [c] \<Longrightarrow> length (SplitN s [c] 2) = 2"
  by (simp add: Contains_single SplitN_two_single)

lemma Split_single_nonempty: "0 < length (Split s [c])"
  by (simp add: Split_single splitOn_nonempty)

lemma parse_numbers:
  "(let parts = Split numbers ''.'' in
      case (if length parts > 0 then Atoi (parts ! 0) else Some 0) of
        None \<Rightarrow> ZeroVersion\<lparr>Version := s\<rparr>
      | Some major \<Rightarrow>
          let minor = (if length parts > 1
                       then (case Atoi (parts ! 1) of None \<Rightarrow> 0 | Some n \<Rightarrow> n) else 0);
              patch = (if length parts > 2
                       then (case Atoi (parts ! 2) of None \<Rightarrow> 0 | Some n \<Rightarrow> n) else 0)
          in \<lparr>Version = s, Major = major, Minor = minor, Patch = patch, Label = label\<rparr>) =
   versionOfParts s numbers label"
proof -
  obtain p ps where sp: "splitOn CHR ''.'' numbers = p # ps"
    using splitOn_nonempty [of "CHR ''.''" numbers] by (cases "splitOn CHR ''.'' numbers") auto
  show ?thesis
    unfolding Split_single versionOfParts_def segmentOr0_def Let_def sp
    by (cases "Atoi p") (simp_all add: opaqueVersion_def ZeroVersion_def)
qed

lemma ParseVersion_folded:
  "ParseVersion s =
     (if s = [] then ZeroVersion
      else if ToLower s = ''latest'' \<or> ToLower s = ''current'' then ZeroVersion\<lparr>Version := s\<rparr>
      else
        let cleanVersion0 = TrimPrefix s ''v'';
            (cleanVersion, label) =
              (if Contains cleanVersion0 ''-''
               then (let parts = SplitN cleanVersion0 ''-'' 2 in (parts ! 0, parts ! 1))
               else (cleanVersion0, []))
        in versionOfParts s cleanVersion label)"
  unfolding ParseVersion_def parse_numbers ..

lemma ParseVersion_eq_FirstDash: "ParseVersion s = ParseVersionFirstDash s"
proof (cases "s = []")
  case True
  have "Atoi [] = None" by (simp add: Atoi_def)
  with True show ?thesis
    by (simp add: ParseVersion_folded ParseVersionFirstDash_def ToLower_def stripV_def
        versionOfParts_def opaqueVersion_def ZeroVersion_def)
next
  case False
  show ?thesis
  proof (cases "ToLower s = ''latest'' \<or> ToLower s = ''current''")
    case True
    with False show ?thesis
      by (simp add: ParseVersion_folded ParseVersionFirstDash_def opaqueVersion_def ZeroVersion_def)
  next
    case special: False
    show ?thesis
    proof (cases "CHR ''-'' \<in> set (stripV s)")
      case True
      with False special show ?thesis
        by (simp add: ParseVersion_folded ParseVersionFirstDash_def TrimPrefix_v Contains_single
            SplitN_two_single Let_def)
    next
      case nodash: False
      with False special show ?thesis
        by (simp add: ParseVersion_folded ParseVersionFirstDash_def TrimPrefix_v Contains_single
            Let_def)
    qed
  qed
qed

lemma ParseVersionLastDash_rc:
  "ParseVersionLastDash ''v1.0.0-rc-1'' =
     \<lparr>Version = ''v1.0.0-rc-1'', Major = 1, Minor = 0, Patch = 0, Label = ''1''\<rparr>"
  by code_simp

text \<open>
  C3, as stated: \<open>ParseVersion\<close> splits once on the last \<open>-\<close>. On \<open>v1.0.0-rc-1\<close> the code
  gives the label \<open>rc-1\<close>, the text after the first \<open>-\<close>; a split on the last \<open>-\<close> gives the
  label \<open>1\<close>.
\<close>

theorem ParseVersion_last_dash_counterexample:
  "Label (ParseVersion ''v1.0.0-rc-1'') = ''rc-1'' \<and>
   Label (ParseVersionLastDash ''v1.0.0-rc-1'') = ''1'' \<and>
   ParseVersion ''v1.0.0-rc-1'' \<noteq> ParseVersionLastDash ''v1.0.0-rc-1''"
  by (simp add: ParseVersion_rc ParseVersionLastDash_rc)

text \<open>
  C3, amended. For every string, \<open>ParseVersion\<close> strips one leading \<open>v\<close>, splits once on the
  first \<open>-\<close> into the numbers and the label, splits the numbers on \<open>.\<close> and reads up to three
  integers, a missing or unreadable second or third one being 0; when the first segment
  is no integer, and for \<open>latest\<close> and \<open>current\<close> in any case, the version is opaque: the
  original string with all numbers 0. \<open>v1.0.0-beta\<close> has the label \<open>beta\<close>, and \<open>v1.2.3\<close>
  has the string \<open>v1.2.3\<close> and the numbers 1, 2, 3.
\<close>

theorem ParseVersion_first_dash:
  "ParseVersion s = ParseVersionFirstDash s \<and>
   Label (ParseVersion ''v1.0.0-beta'') = ''beta'' \<and>
   String (ParseVersion ''v1.2.3'') = ''v1.2.3'' \<and>
   Major (ParseVersion ''v1.2.3'') = 1 \<and> Minor (ParseVersion ''v1.2.3'') = 2 \<and>
   Patch (ParseVersion ''v1.2.3'') = 3"
  by (simp add: ParseVersion_eq_FirstDash [of s] ParseVersion_beta ParseVersion_v123 String_def)

section \<open>Migrator: the field-mapping transform\<close>

lemma transformValue_eq:
  "transformValue sprintf v t = Inr (if t = ''string'' then VString (sprintf v) else v)"
  by (cases v) (simp_all add: transformValue_def)

lemma applyFieldMappings_fails_iff:
  "(\<exists>err. applyFieldMappings sprintf ms inputMap acc = Inl err) \<longleftrightarrow>
     list_ex (missingRequired inputMap) ms"
proof (induction ms arbitrary: acc)
  case Nil
  show ?case by simp
next
  case (Cons m ms)
  show ?case
  proof (cases "inputMap (FromField m)")
    case (Some v)
    with Cons show ?thesis by (simp add: transformValue_eq missingRequired_def)
  next
    case None
    with Cons show ?thesis by (simp add: missingRequired_def)
  qed
qed

lemma applyFieldMappings_other:
  "applyFieldMappings sprintf ms inputMap acc = Inr out \<Longrightarrow>
     \<forall>m \<in> set ms. ToField m \<noteq> k \<Longrightarrow> out k = acc k"
proof (induction ms arbitrary: acc)
  case Nil
  then show ?case by simp
next
  case (Cons m ms)
  show ?case
  proof (cases "inputMap (FromField m)")
    case (Some v)
    with Cons.prems have
      "applyFieldMappings sprintf ms inputMap
         (acc(ToField m \<mapsto> (if Transform m = ''string'' then VString (sprintf v) else v))) = Inr out"
      by (simp add: transformValue_eq)
    from Cons.IH [OF this] Cons.prems(2) show ?thesis by auto
  next
    case None
    show ?thesis
    proof (cases "DefaultValue m \<noteq> VNil")
      case True
      with None Cons.prems have
        "applyFieldMappings sprintf ms inputMap (acc(ToField m \<mapsto> DefaultValue m)) = Inr out"
        by simp
      from Cons.IH [OF this] Cons.prems(2) show ?thesis by auto
    next
      case False
      with None Cons.prems have "applyFieldMappings sprintf ms inputMap acc = Inr out"
        by (simp split: if_splits)
      from Cons.IH [OF this] Cons.prems(2) show ?thesis by simp
    qed
  qed
qed

lemma applyFieldMappings_written:
  "applyFieldMappings sprintf ms inputMap acc = Inr out \<Longrightarrow> distinct (map ToField ms) \<Longrightarrow>
     m \<in> set ms \<Longrightarrow>
     out (ToField m) = (case mappingWrites sprintf inputMap m of Some w \<Rightarrow> Some w | None \<Rightarrow> acc (ToField m))"
proof (induction ms arbitrary: acc)
  case Nil
  then show ?case by simp
next
  case (Cons a ms)
  from Cons.prems(2) have d: "distinct (map ToField ms)"
    by simp
  from Cons.prems(2) have na: "\<forall>x \<in> set ms. ToField x \<noteq> ToField a"
    by (fastforce simp: image_iff)
  show ?case
  proof (cases "inputMap (FromField a)")
    case (Some v)
    let ?acc = "acc(ToField a \<mapsto> (if Transform a = ''string'' then VString (sprintf v) else v))"
    from Some Cons.prems(1) have r: "applyFieldMappings sprintf ms inputMap ?acc = Inr out"
      by (simp add: transformValue_eq)
    show ?thesis
    proof (cases "m = a")
      case True
      from applyFieldMappings_other [OF r na] Some True show ?thesis
        by (simp add: mappingWrites_def)
    next
      case False
      with Cons.prems(3) have ms: "m \<in> set ms" by simp
      with na have "ToField m \<noteq> ToField a" by blast
      with Cons.IH [OF r d ms] show ?thesis by (simp split: option.splits)
    qed
  next
    case None
    show ?thesis
    proof (cases "DefaultValue a \<noteq> VNil")
      case True
      let ?acc = "acc(ToField a \<mapsto> DefaultValue a)"
      from None True Cons.prems(1) have r: "applyFieldMappings sprintf ms inputMap ?acc = Inr out"
        by simp
      show ?thesis
      proof (cases "m = a")
        case True
        from applyFieldMappings_other [OF r na] None \<open>DefaultValue a \<noteq> VNil\<close> True show ?thesis
          by (simp add: mappingWrites_def)
      next
        case False
        with Cons.prems(3) have ms: "m \<in> set ms" by simp
        with na have "ToField m \<noteq> ToField a" by blast
        with Cons.IH [OF r d ms] show ?thesis by (simp split: option.splits)
      qed
    next
      case False
      with None Cons.prems(1) have r: "applyFieldMappings sprintf ms inputMap acc = Inr out"
        by (simp split: if_splits)
      show ?thesis
      proof (cases "m = a")
        case True
        from applyFieldMappings_other [OF r na] None False True show ?thesis
          by (simp add: mappingWrites_def)
      next
        case False
        with Cons.prems(3) have ms: "m \<in> set ms" by simp
        from Cons.IH [OF r d ms] show ?thesis .
      qed
    qed
  qed
qed

lemma userMappings_simps:
  "FieldMappings (automaticMigration userMappings) = userMappings"
  "set userMappings = {requiredMapping ''name'' ''display_name'', requiredMapping ''email'' ''email'',
      requiredMapping ''id'' ''user_id''}"
  "map ToField userMappings = [''display_name'', ''email'', ''user_id'']"
  "map FromField userMappings = [''name'', ''email'', ''id'']"
  by (simp_all add: automaticMigration_def userMappings_def requiredMapping_def)

text \<open>
  The example test \<open>ExampleMigrator\<close>: the migration is added with
  \<open>AddAutomaticMigration\<close>, and \<open>Migrate\<close> returns the map the test expects.
\<close>

lemma AddAutomaticMigration_example:
  "AddAutomaticMigration (NewMigrator ''users'') (NewVersion 1 0 0) (NewVersion 2 0 0) userMappings False =
     (None, \<lparr>component = ''users'',
             migrations = [''v1.0.0-v2.0.0'' \<mapsto> automaticMigration userMappings]\<rparr>)"
  by (simp add: AddAutomaticMigration_def AddMigration_def NewMigrator_def Let_def
      automaticMigration_def migrationKey_def String_def NewVersion_100 NewVersion_200)

lemma applyFieldMappings_example:
  "applyFieldMappings sprintf userMappings userInput Map.empty =
     Inr [''display_name'' \<mapsto> VString ''John Doe'', ''email'' \<mapsto> VString ''john@example.com'',
          ''user_id'' \<mapsto> VInt 123]"
  by (simp add: userMappings_def requiredMapping_def userInput_def transformValue_def)

lemma copyUnmapped_example:
  "copyUnmapped userMappings userInput
      [''display_name'' \<mapsto> VString ''John Doe'', ''email'' \<mapsto> VString ''john@example.com'',
       ''user_id'' \<mapsto> VInt 123] =
     [''display_name'' \<mapsto> VString ''John Doe'', ''email'' \<mapsto> VString ''john@example.com'',
      ''user_id'' \<mapsto> VInt 123, ''role'' \<mapsto> VString ''admin'']"
  by (rule ext) (simp add: copyUnmapped_def userMappings_def requiredMapping_def userInput_def)

lemma ExampleMigrator_output:
  "Migrate sprintf
     (snd (AddAutomaticMigration (NewMigrator ''users'') (NewVersion 1 0 0) (NewVersion 2 0 0) userMappings False))
     (NewVersion 1 0 0) (NewVersion 2 0 0) (VMap userInput) =
   Inr (VMap [''display_name'' \<mapsto> VString ''John Doe'', ''email'' \<mapsto> VString ''john@example.com'',
              ''user_id'' \<mapsto> VInt 123, ''role'' \<mapsto> VString ''admin''])"
proof -
  have c: "Compare (NewVersion 1 0 0) (NewVersion 2 0 0) \<noteq> 0"
    by (simp add: Compare_def NewVersion_100 NewVersion_200)
  have s: "Strategy (automaticMigration userMappings) = MigrationStrategyAutomatic"
    by (simp add: automaticMigration_def)
  have m: "migrateMapData sprintf (automaticMigration userMappings) (VMap userInput) =
     Inr (VMap [''display_name'' \<mapsto> VString ''John Doe'', ''email'' \<mapsto> VString ''john@example.com'',
                ''user_id'' \<mapsto> VInt 123, ''role'' \<mapsto> VString ''admin''])"
    by (simp add: migrateMapData_def userMappings_simps(1) applyFieldMappings_example
        copyUnmapped_example)
  show ?thesis
    using c
    by (simp add: Migrate_def AddAutomaticMigration_example migrationKey_v1_v2 s
        performAutomaticMigration_def m)
qed

text \<open>
  C4, as stated: in the output, the value of a source field that is present stands under
  the destination field of its mapping. With the mapping of \<open>name\<close> to \<open>role\<close> and an input
  that has both \<open>name\<close> and \<open>role\<close>, the field \<open>role\<close> of the output holds the input's \<open>role\<close>:
  \<open>role\<close> is the source of no mapping, and the copy of such fields runs after the mappings.
\<close>

theorem migrateMapData_destination_counterexample:
  "nameAndRole (FromField (requiredMapping ''name'' ''role'')) = Some (VString ''John Doe'') \<and>
   Transform (requiredMapping ''name'' ''role'') = [] \<and>
   resultField
     (migrateMapData (\<lambda>v. []) (automaticMigration [requiredMapping ''name'' ''role'']) (VMap nameAndRole))
     (ToField (requiredMapping ''name'' ''role'')) = Some (VString ''admin'')"
  by (simp add: nameAndRole_def requiredMapping_def automaticMigration_def migrateMapData_def
      transformValue_def copyUnmapped_def resultField_def)

text \<open>
  C4, amended. On a map-shaped input the field-mapping transform fails exactly when some
  mapping has its source field absent, no default and \<open>Required\<close> set; otherwise it
  returns a map in which every input field that is the source of no mapping stands
  unchanged, and every field that is no destination and no such input field is absent.
  When no two mappings share a destination field and no destination field is an input
  field that is the source of no mapping, the destination field of every mapping holds
  what the mapping writes: the source value after the hook (\<open>string\<close> formats it, every
  other hook passes it through) when the source is present, the default when it is absent
  and a default is configured, and nothing when it is absent with no default and not
  required.
\<close>

theorem migrateMapData_field_mappings:
  "((\<exists>err. migrateMapData sprintf mig (VMap inputMap) = Inl err) \<longleftrightarrow>
      list_ex (missingRequired inputMap) (FieldMappings mig)) \<and>
   (\<not> list_ex (missingRequired inputMap) (FieldMappings mig) \<longrightarrow>
      (\<exists>out. migrateMapData sprintf mig (VMap inputMap) = Inr (VMap out))) \<and>
   (\<forall>out. migrateMapData sprintf mig (VMap inputMap) = Inr (VMap out) \<longrightarrow>
      (\<forall>k v. inputMap k = Some v \<and> (\<forall>m \<in> set (FieldMappings mig). FromField m \<noteq> k) \<longrightarrow>
         out k = Some v) \<and>
      (\<forall>k. (\<forall>m \<in> set (FieldMappings mig). ToField m \<noteq> k) \<and>
           (inputMap k = None \<or> (\<exists>m \<in> set (FieldMappings mig). FromField m = k)) \<longrightarrow>
         out k = None) \<and>
      (distinct (map ToField (FieldMappings mig)) \<and>
       (\<forall>k. inputMap k \<noteq> None \<and> (\<forall>m \<in> set (FieldMappings mig). FromField m \<noteq> k) \<longrightarrow>
          (\<forall>m \<in> set (FieldMappings mig). ToField m \<noteq> k)) \<longrightarrow>
       (\<forall>m \<in> set (FieldMappings mig). out (ToField m) = mappingWrites sprintf inputMap m)))"
proof (intro conjI allI impI ballI)
  let ?ms = "FieldMappings mig"
  let ?r = "applyFieldMappings sprintf ?ms inputMap Map.empty"
  show "(\<exists>err. migrateMapData sprintf mig (VMap inputMap) = Inl err) \<longleftrightarrow>
      list_ex (missingRequired inputMap) ?ms"
    using applyFieldMappings_fails_iff [of sprintf ?ms inputMap Map.empty]
    by (cases ?r) (simp_all add: migrateMapData_def)
  {
    assume "\<not> list_ex (missingRequired inputMap) ?ms"
    then have "\<not> (\<exists>err. ?r = Inl err)"
      by (simp add: applyFieldMappings_fails_iff)
    then show "\<exists>out. migrateMapData sprintf mig (VMap inputMap) = Inr (VMap out)"
      by (cases ?r) (simp_all add: migrateMapData_def)
  }
  fix out
  assume res: "migrateMapData sprintf mig (VMap inputMap) = Inr (VMap out)"
  then obtain resultMap where r: "?r = Inr resultMap"
    and out: "out = copyUnmapped ?ms inputMap resultMap"
    by (cases ?r) (simp_all add: migrateMapData_def)
  {
    fix k v
    assume "inputMap k = Some v \<and> (\<forall>m \<in> set ?ms. FromField m \<noteq> k)"
    then show "out k = Some v"
      by (simp add: out copyUnmapped_def list_ex_iff)
  }
  {
    fix k
    assume a: "(\<forall>m \<in> set ?ms. ToField m \<noteq> k) \<and>
           (inputMap k = None \<or> (\<exists>m \<in> set ?ms. FromField m = k))"
    then have "resultMap k = None"
      using applyFieldMappings_other [OF r, of k] by simp
    with a show "out k = None"
      by (auto simp: out copyUnmapped_def list_ex_iff split: option.splits)
  }
  {
    fix m
    assume h: "distinct (map ToField ?ms) \<and>
       (\<forall>k. inputMap k \<noteq> None \<and> (\<forall>m \<in> set ?ms. FromField m \<noteq> k) \<longrightarrow>
          (\<forall>m \<in> set ?ms. ToField m \<noteq> k))"
      and m: "m \<in> set ?ms"
    from h have d: "distinct (map ToField ?ms)" by simp
    from applyFieldMappings_written [OF r d m]
    have w: "resultMap (ToField m) = mappingWrites sprintf inputMap m"
      by (simp split: option.splits)
    have "out (ToField m) = resultMap (ToField m)"
    proof (cases "inputMap (ToField m)")
      case None
      then show ?thesis by (simp add: out copyUnmapped_def)
    next
      case (Some v)
      with h m have "\<exists>x \<in> set ?ms. FromField x = ToField m" by blast
      with Some show ?thesis by (simp add: out copyUnmapped_def list_ex_iff)
    qed
    with w show "out (ToField m) = mappingWrites sprintf inputMap m" by simp
  }
qed

theorem migrateMapData_field_mappings_witness:
  "\<not> list_ex (missingRequired userInput) userMappings \<and>
   distinct (map ToField userMappings) \<and>
   (\<exists>out. migrateMapData (\<lambda>v. []) (automaticMigration userMappings) (VMap userInput) = Inr (VMap out) \<and>
      out ''display_name'' = Some (VString ''John Doe'') \<and>
      out ''email'' = Some (VString ''john@example.com'') \<and>
      out ''user_id'' = Some (VInt 123) \<and>
      out ''role'' = Some (VString ''admin'') \<and>
      out ''name'' = None \<and> out ''id'' = None)"
proof -
  let ?mig = "automaticMigration userMappings"
  note t = migrateMapData_field_mappings [of "\<lambda>v. []" ?mig userInput, unfolded userMappings_simps(1)]
  have nm: "\<not> list_ex (missingRequired userInput) userMappings"
    by (simp add: userMappings_def requiredMapping_def missingRequired_def userInput_def)
  have d: "distinct (map ToField userMappings)"
    by (simp add: userMappings_simps)
  have p: "\<forall>k. userInput k \<noteq> None \<and> (\<forall>m \<in> set userMappings. FromField m \<noteq> k) \<longrightarrow>
          (\<forall>m \<in> set userMappings. ToField m \<noteq> k)"
    by (simp add: userMappings_simps(2) requiredMapping_def userInput_def)
  from t [THEN conjunct2, THEN conjunct1, rule_format, OF nm] obtain out where
    res: "migrateMapData (\<lambda>v. []) ?mig (VMap userInput) = Inr (VMap out)" ..
  note u = t [THEN conjunct2, THEN conjunct2, rule_format, OF res]
  note pass = u [THEN conjunct1, rule_format]
  note none = u [THEN conjunct2, THEN conjunct1, rule_format]
  note w = u [THEN conjunct2, THEN conjunct2, rule_format, OF conjI, OF d p]
  have "out ''display_name'' = Some (VString ''John Doe'')"
    using w [of "requiredMapping ''name'' ''display_name''"]
    by (simp add: userMappings_simps(2) requiredMapping_def mappingWrites_def userInput_def)
  moreover have "out ''email'' = Some (VString ''john@example.com'')"
    using w [of "requiredMapping ''email'' ''email''"]
    by (simp add: userMappings_simps(2) requiredMapping_def mappingWrites_def userInput_def)
  moreover have "out ''user_id'' = Some (VInt 123)"
    using w [of "requiredMapping ''id'' ''user_id''"]
    by (simp add: userMappings_simps(2) requiredMapping_def mappingWrites_def userInput_def)
  moreover have "out ''role'' = Some (VString ''admin'')"
    using pass [of "''role''" "VString ''admin''"]
    by (simp add: userMappings_simps(2) requiredMapping_def userInput_def)
  moreover have "out ''name'' = None"
    using none [of "''name''"]
    by (simp add: userMappings_simps(2) requiredMapping_def userInput_def)
  moreover have "out ''id'' = None"
    using none [of "''id''"]
    by (simp add: userMappings_simps(2) requiredMapping_def userInput_def)
  ultimately show ?thesis
    using nm d res by simp
qed

section \<open>Manager: \<open>CheckCompatibility\<close>\<close>

lemma find_None_list_ex: "(find P xs = None) = (\<not> list_ex P xs)"
  by (auto simp: find_None_iff list_ex_iff)

lemma checkConstraint_None:
  "checkConstraint cvs name version c = None \<longleftrightarrow> \<not> constraintViolated cvs c"
proof (cases "map_of cvs (Component c)")
  case None
  then show ?thesis by (simp add: checkConstraint_def constraintViolated_def Let_def)
next
  case (Some requiredVersion)
  show ?thesis
  proof (cases "find (sameNumbers requiredVersion) (Conflicts c)")
    case None
    with Some show ?thesis
      using find_None_list_ex [of "sameNumbers requiredVersion" "Conflicts c"]
      by (simp add: checkConstraint_def constraintViolated_def Let_def)
  next
    case (Some conflictVersion)
    with \<open>map_of cvs (Component c) = Some requiredVersion\<close> show ?thesis
      using find_None_list_ex [of "sameNumbers requiredVersion" "Conflicts c"]
      by (simp add: checkConstraint_def constraintViolated_def Let_def)
  qed
qed

lemma checkConstraints_None:
  "checkConstraints cvs name version cs = None \<longleftrightarrow> (\<forall>c \<in> set cs. \<not> constraintViolated cvs c)"
proof (induction cs)
  case Nil
  show ?case by simp
next
  case (Cons c cs)
  show ?case
  proof (cases "checkConstraint cvs name version c")
    case None
    then have "\<not> constraintViolated cvs c" by (simp add: checkConstraint_None)
    with None Cons show ?thesis by simp
  next
    case (Some err)
    then have "constraintViolated cvs c"
      using checkConstraint_None [of cvs name version c] by simp
    with Some show ?thesis by simp
  qed
qed

lemma checkComponents_None:
  "checkComponents m cvs entries = None \<longleftrightarrow>
     (\<forall>(name, version) \<in> set entries. \<forall>cs. constraints m name = Some cs \<longrightarrow>
        (\<forall>c \<in> set cs. \<not> constraintViolated cvs c))"
proof (induction entries)
  case Nil
  show ?case by simp
next
  case (Cons e entries)
  obtain name version where e: "e = (name, version)" by (cases e)
  show ?case
  proof (cases "constraints m name")
    case None
    with Cons e show ?thesis by simp
  next
    case (Some cs)
    show ?thesis
    proof (cases "checkConstraints cvs name version cs")
      case None
      then have "\<forall>c \<in> set cs. \<not> constraintViolated cvs c"
        by (simp add: checkConstraints_None)
      with None Cons e Some show ?thesis by simp
    next
      case (Some err)
      then have "\<not> (\<forall>c \<in> set cs. \<not> constraintViolated cvs c)"
        using checkConstraints_None [of cvs name version cs] by simp
      with Some e \<open>constraints m name = Some cs\<close> show ?thesis by auto
    qed
  qed
qed

lemma constrainedManager_constraints:
  "constraints constrainedManager = [''users'' \<mapsto> [productsV1Only]]"
  by (simp add: constrainedManager_def RegisterWithConstraints_def Register_def Let_def
      NewManager_def usersService_simps)

lemma productsV1Only_violated_iff:
  "constraintViolated cvs productsV1Only \<longleftrightarrow>
     (case map_of cvs ''products'' of None \<Rightarrow> False | Some v \<Rightarrow> \<not> sameNumbers (NewVersion 1 0 0) v)"
  by (simp add: constraintViolated_def productsV1Only_def NewExactVersions_def RangeContains_def
      sameNumbers_def split: option.splits)

text \<open>
  C5, as stated: \<open>CheckCompatibility\<close> considers every component that has stored
  constraints. The manager holds the constraint of \<open>users\<close> that \<open>products\<close> is exactly
  v1.0.0; the input map gives \<open>products\<close> at v2.0.0 and does not name \<open>users\<close>. The target
  of the constraint is in the map and its version is outside the required range;
  \<open>CheckCompatibility\<close> returns no error.
\<close>

theorem CheckCompatibility_absent_owner_counterexample:
  "constraints constrainedManager ''users'' = Some [productsV1Only] \<and>
   map_of [(''products'', NewVersion 2 0 0)] (Component productsV1Only) = Some (NewVersion 2 0 0) \<and>
   \<not> RangeContains (Requires productsV1Only) (NewVersion 2 0 0) \<and>
   CheckCompatibility constrainedManager [(''products'', NewVersion 2 0 0)] = None"
  by (simp add: constrainedManager_constraints productsV1Only_def NewExactVersions_def
      RangeContains_def NewVersion_100 NewVersion_200 CheckCompatibility_def)

text \<open>
  C5, amended. \<open>CheckCompatibility\<close> considers the components that are in the input map
  and have stored constraints: it returns no error exactly when no constraint of such a
  component is violated, a constraint being violated when its target is in the map with
  a version outside the required range or with the numbers of a conflicting version.
\<close>

theorem CheckCompatibility_succeeds_iff:
  "CheckCompatibility m componentVersions = None \<longleftrightarrow>
     \<not> (\<exists>(name, version) \<in> set componentVersions. \<exists>cs. constraints m name = Some cs \<and>
          (\<exists>c \<in> set cs. constraintViolated componentVersions c))"
  unfolding CheckCompatibility_def checkComponents_None by auto

theorem CheckCompatibility_succeeds_iff_witness:
  "CheckCompatibility constrainedManager [(''users'', NewVersion 1 0 0), (''products'', NewVersion 1 0 0)] = None \<and>
   CheckCompatibility constrainedManager [(''users'', NewVersion 1 0 0), (''products'', NewVersion 2 0 0)] \<noteq> None \<and>
   constraintViolated [(''users'', NewVersion 1 0 0), (''products'', NewVersion 2 0 0)] productsV1Only"
proof -
  have a: "\<not> constraintViolated [(''users'', NewVersion 1 0 0), (''products'', NewVersion 1 0 0)] productsV1Only"
    by (simp add: productsV1Only_violated_iff sameNumbers_def)
  have b: "constraintViolated [(''users'', NewVersion 1 0 0), (''products'', NewVersion 2 0 0)] productsV1Only"
    by (simp add: productsV1Only_violated_iff sameNumbers_def NewVersion_100 NewVersion_200)
  from a have "CheckCompatibility constrainedManager
      [(''users'', NewVersion 1 0 0), (''products'', NewVersion 1 0 0)] = None"
    unfolding CheckCompatibility_succeeds_iff by (simp add: constrainedManager_constraints)
  moreover from b have "CheckCompatibility constrainedManager
      [(''users'', NewVersion 1 0 0), (''products'', NewVersion 2 0 0)] \<noteq> None"
    unfolding CheckCompatibility_succeeds_iff by (simp add: constrainedManager_constraints)
  ultimately show ?thesis using b by simp
qed

section \<open>Migrator: \<open>AddMigration\<close> and the reverse entry\<close>

text \<open>
  C6, as stated: a reversible migration is stored at the key of (from, to), and the reverse
  entry at the key of (to, from) has the field mappings of the migration with the two
  field names exchanged and the default dropped. Two inputs where the code differs: a
  mapping with the transform hook \<open>string\<close>, whose reverse has the empty hook; and a
  reversible migration from v1.0.0 to v1.0.0, where both keys are the same string and the
  entry left under it is the reverse one.
\<close>

theorem AddMigration_reverse_counterexample:
  "FieldMappings (the (migrations
      (snd (AddMigration (NewMigrator ''users'')
              (Some (reversibleMigration (NewVersion 1 0 0) (NewVersion 2 0 0)))))
      (migrationKey (NewVersion 2 0 0) (NewVersion 1 0 0))))
     \<noteq> map claimedReverseMapping
          (FieldMappings (reversibleMigration (NewVersion 1 0 0) (NewVersion 2 0 0))) \<and>
   migrations
      (snd (AddMigration (NewMigrator ''users'')
              (Some (reversibleMigration (NewVersion 1 0 0) (NewVersion 1 0 0)))))
      (migrationKey (NewVersion 1 0 0) (NewVersion 1 0 0))
     \<noteq> Some (reversibleMigration (NewVersion 1 0 0) (NewVersion 1 0 0))"
  by (simp add: AddMigration_def Let_def reversibleMigration_def NewMigrator_def
      migrationKey_v1_v2 migrationKey_v2_v1 reverseFieldMappings_def reverseTransform_def
      claimedReverseMapping_def createdMapping_def)

text \<open>
  C6, amended. For a reversible migration, \<open>AddMigration\<close> returns no error and stores under
  the key of (to, from) the reverse entry: from and to exchanged, the strategy copied, each
  field mapping with its two field names exchanged, its transform hook emptied, its
  default dropped and \<open>Required\<close> kept, no custom function, \<open>Reversible\<close> false. The
  migration itself is under the key of (from, to) when the two keys differ. Afterwards
  \<open>CanMigrate(to, from)\<close> is true.
\<close>

theorem AddMigration_reversible:
  "Reversible mig \<Longrightarrow>
     fst (AddMigration m (Some mig)) = None \<and>
     migrations (snd (AddMigration m (Some mig))) (migrationKey (ToVersion mig) (FromVersion mig)) =
       Some \<lparr>FromVersion = ToVersion mig, ToVersion = FromVersion mig, Strategy = Strategy mig,
             FieldMappings =
               map (\<lambda>mapping. \<lparr>FromField = ToField mapping, ToField = FromField mapping,
                                Transform = [], DefaultValue = VNil, Required = Required mapping\<rparr>)
                 (FieldMappings mig),
             CustomFunc = None, Reversible = False,
             Description = ''Reverse migration: '' @ Description mig, Examples = Map.empty\<rparr> \<and>
     (migrationKey (FromVersion mig) (ToVersion mig) \<noteq> migrationKey (ToVersion mig) (FromVersion mig) \<longrightarrow>
        migrations (snd (AddMigration m (Some mig))) (migrationKey (FromVersion mig) (ToVersion mig)) = Some mig) \<and>
     CanMigrate (snd (AddMigration m (Some mig))) (ToVersion mig) (FromVersion mig)"
  by (simp add: AddMigration_def Let_def reverseFieldMappings_def reverseTransform_def CanMigrate_def)

theorem AddMigration_reversible_witness:
  "Reversible (reversibleMigration (NewVersion 1 0 0) (NewVersion 2 0 0)) \<and>
   migrationKey (NewVersion 1 0 0) (NewVersion 2 0 0) \<noteq> migrationKey (NewVersion 2 0 0) (NewVersion 1 0 0) \<and>
   migrations (snd (AddMigration (NewMigrator ''users'')
       (Some (reversibleMigration (NewVersion 1 0 0) (NewVersion 2 0 0)))))
     (migrationKey (NewVersion 1 0 0) (NewVersion 2 0 0)) =
     Some (reversibleMigration (NewVersion 1 0 0) (NewVersion 2 0 0)) \<and>
   FieldMappings (the (migrations (snd (AddMigration (NewMigrator ''users'')
       (Some (reversibleMigration (NewVersion 1 0 0) (NewVersion 2 0 0)))))
     (migrationKey (NewVersion 2 0 0) (NewVersion 1 0 0)))) =
     [\<lparr>FromField = ''created_at'', ToField = ''created'', Transform = [], DefaultValue = VNil,
       Required = False\<rparr>] \<and>
   CanMigrate (snd (AddMigration (NewMigrator ''users'')
       (Some (reversibleMigration (NewVersion 1 0 0) (NewVersion 2 0 0)))))
     (NewVersion 2 0 0) (NewVersion 1 0 0)"
proof -
  have r: "Reversible (reversibleMigration (NewVersion 1 0 0) (NewVersion 2 0 0))"
    by (simp add: reversibleMigration_def)
  have k: "migrationKey (NewVersion 1 0 0) (NewVersion 2 0 0) \<noteq> migrationKey (NewVersion 2 0 0) (NewVersion 1 0 0)"
    by (simp add: migrationKey_v1_v2 migrationKey_v2_v1)
  have f: "FromVersion (reversibleMigration (NewVersion 1 0 0) (NewVersion 2 0 0)) = NewVersion 1 0 0"
    "ToVersion (reversibleMigration (NewVersion 1 0 0) (NewVersion 2 0 0)) = NewVersion 2 0 0"
    "FieldMappings (reversibleMigration (NewVersion 1 0 0) (NewVersion 2 0 0)) = [createdMapping]"
    by (simp_all add: reversibleMigration_def)
  from AddMigration_reversible [OF r, of "NewMigrator ''users''"] r k
  show ?thesis
    unfolding f by (simp add: createdMapping_def)
qed

section \<open>Migrator: the identity on equal versions\<close>

text \<open>
  C7. For every version \<open>v\<close> and every input \<open>x\<close>, \<open>Migrate(v, v, x)\<close> returns \<open>x\<close> unchanged and
  no error, whatever the migration table of the migrator holds: the table is not consulted.
\<close>

theorem Migrate_same_version_identity:
  "Migrate sprintf m v v x = Inr x"
  by (simp add: Migrate_def Compare_def)

section \<open>DefaultMetricsCollector: the totals of \<open>GetUsageStats\<close>\<close>

lemma countRequests_snoc:
  "countRequests (calls @ [call]) =
     (case call of CallRecordRequest now \<Rightarrow> Suc (countRequests calls) | CallRecordError err \<Rightarrow> countRequests calls)"
  by (induction calls rule: countRequests.induct) (simp_all split: MetricsCall.splits)

lemma countErrors_snoc:
  "countErrors (calls @ [call]) =
     (case call of CallRecordRequest now \<Rightarrow> countErrors calls | CallRecordError err \<Rightarrow> Suc (countErrors calls))"
  by (induction calls rule: countErrors.induct) (simp_all split: MetricsCall.splits)

lemma increment_empty: "increment k [] = [(k, 1)]"
  by (simp add: increment_def)

lemma increment_single: "increment k [(k, n)] = [(k, n + 1)]"
  by (simp add: increment_def)

lemma metrics_after_calls:
  "calls \<noteq> [] \<Longrightarrow>
     \<exists>cm. metrics (foldl (applyCall c v) NewDefaultMetricsCollector calls) c = Some cm \<and>
       VersionMetrics cm =
         (if countRequests calls = 0 then [] else [(String v, of_nat (countRequests calls))]) \<and>
       ErrorCounts cm =
         (if countErrors calls = 0 then [] else [(String v, of_nat (countErrors calls))])"
proof (induction calls rule: rev_induct)
  case Nil
  then show ?case by simp
next
  case (snoc call calls)
  show ?case
  proof (cases "calls = []")
    case True
    then show ?thesis
      by (cases call)
        (simp_all add: NewDefaultMetricsCollector_def RecordRequest_def RecordError_def
          emptyMetrics_def increment_empty Let_def)
  next
    case False
    with snoc.IH obtain cm where
      cm: "metrics (foldl (applyCall c v) NewDefaultMetricsCollector calls) c = Some cm"
      and vm: "VersionMetrics cm =
         (if countRequests calls = 0 then [] else [(String v, of_nat (countRequests calls))])"
      and ec: "ErrorCounts cm =
         (if countErrors calls = 0 then [] else [(String v, of_nat (countErrors calls))])"
      by blast
    show ?thesis
    proof (cases call)
      case (CallRecordRequest now)
      with cm vm ec show ?thesis
        by (simp add: RecordRequest_def Let_def countRequests_snoc countErrors_snoc
            increment_empty increment_single)
    next
      case (CallRecordError err)
      with cm vm ec show ?thesis
        by (simp add: RecordError_def Let_def countRequests_snoc countErrors_snoc
            increment_empty increment_single)
    qed
  qed
qed

lemma sint_of_nat_int64: "n < 2 ^ 63 \<Longrightarrow> sint (of_nat n :: int64) = int n"
proof -
  assume "n < 2 ^ 63"
  then have "int n < 2 ^ 63" by (metis of_nat_less_iff of_nat_numeral of_nat_power)
  then show ?thesis
    by (simp add: signed_of_nat signed_take_bit_int_eq_self)
qed

text \<open>
  C8, as stated: for all counts \<open>N \<ge> 0\<close> and \<open>E \<ge> 0\<close>, \<open>GetUsageStats(c)\<close> reports the totals
  after \<open>N\<close> requests and \<open>E\<close> errors. With no call at all the collector has no entry for
  the component, and \<open>GetUsageStats\<close> returns nil: there are no statistics to read.
\<close>

theorem GetUsageStats_totals_counterexample:
  "GetUsageStats (foldl (applyCall ''users'' (NewVersion 1 0 0)) NewDefaultMetricsCollector []) ''users'' = None"
  by (simp add: GetUsageStats_def GetMetrics_def NewDefaultMetricsCollector_def)

text \<open>
  C8, amended. After a non-empty sequence of \<open>RecordRequest(c, v)\<close> and
  \<open>RecordError(c, v, _)\<close> calls on a new collector, in any order, with \<open>N\<close> requests and \<open>E\<close>
  errors, both within the range of \<open>int64\<close>, \<open>GetUsageStats(c)\<close> returns statistics with
  \<open>TotalRequests = N\<close>, \<open>TotalErrors = E\<close> and \<open>ErrorRate\<close> the quotient of the conversions of
  \<open>E\<close> and \<open>N\<close> to \<open>float64\<close>, or zero when \<open>N = 0\<close>.
\<close>

theorem GetUsageStats_totals:
  assumes "calls \<noteq> []" and "countRequests calls < 2 ^ 63" and "countErrors calls < 2 ^ 63"
  shows "\<exists>stats. GetUsageStats (foldl (applyCall c v) NewDefaultMetricsCollector calls) c = Some stats \<and>
           sint (TotalRequests stats) = int (countRequests calls) \<and>
           sint (TotalErrors stats) = int (countErrors calls) \<and>
           ErrorRate stats =
             (if countRequests calls = 0 then Float64 0
              else Quotient (Float64 (int (countErrors calls))) (Float64 (int (countRequests calls))))"
proof -
  from metrics_after_calls [OF assms(1), of c v] obtain cm where
    cm: "metrics (foldl (applyCall c v) NewDefaultMetricsCollector calls) c = Some cm"
    and vm: "VersionMetrics cm =
       (if countRequests calls = 0 then [] else [(String v, of_nat (countRequests calls))])"
    and ec: "ErrorCounts cm =
       (if countErrors calls = 0 then [] else [(String v, of_nat (countErrors calls))])"
    by blast
  note s = sint_of_nat_int64 [OF assms(2)] sint_of_nat_int64 [OF assms(3)]
  show ?thesis
    using cm vm ec s
    by (simp add: GetUsageStats_def GetMetrics_def usageStep_def Let_def split: prod.splits)
qed

theorem GetUsageStats_totals_witness:
  "[CallRecordRequest ''2024-01-01T00:00:00Z'', CallRecordError (Errorf ''boom''),
    CallRecordRequest ''2024-01-01T00:00:01Z'', CallRecordRequest ''2024-01-01T00:00:02Z''] \<noteq> [] \<and>
   countRequests [CallRecordRequest ''2024-01-01T00:00:00Z'', CallRecordError (Errorf ''boom''),
    CallRecordRequest ''2024-01-01T00:00:01Z'', CallRecordRequest ''2024-01-01T00:00:02Z''] = 3 \<and>
   countErrors [CallRecordRequest ''2024-01-01T00:00:00Z'', CallRecordError (Errorf ''boom''),
    CallRecordRequest ''2024-01-01T00:00:01Z'', CallRecordRequest ''2024-01-01T00:00:02Z''] = 1 \<and>
   (\<exists>stats. GetUsageStats (foldl (applyCall ''users'' (NewVersion 1 0 0)) NewDefaultMetricsCollector
        [CallRecordRequest ''2024-01-01T00:00:00Z'', CallRecordError (Errorf ''boom''),
         CallRecordRequest ''2024-01-01T00:00:01Z'', CallRecordRequest ''2024-01-01T00:00:02Z''])
        ''users'' = Some stats \<and>
      sint (TotalRequests stats) = 3 \<and> sint (TotalErrors stats) = 1 \<and>
      ErrorRate stats = Quotient (Float64 1) (Float64 3))"
proof -
  define calls where "calls =
    [CallRecordRequest ''2024-01-01T00:00:00Z'', CallRecordError (Errorf ''boom''),
     CallRecordRequest ''2024-01-01T00:00:01Z'', CallRecordRequest ''2024-01-01T00:00:02Z'']"
  have n: "calls \<noteq> []" and r: "countRequests calls = 3" and e: "countErrors calls = 1"
    by (simp_all add: calls_def)
  have rb: "countRequests calls < 2 ^ 63" and eb: "countErrors calls < 2 ^ 63"
    by (simp_all add: r e)
  from GetUsageStats_totals [OF n rb eb, of "''users''" "NewVersion 1 0 0"] n r e
  show ?thesis
    unfolding calls_def by simp
qed

section \<open>Manager: the registry maps stay aligned\<close>

lemma aligned_iff:
  "aligned m \<longleftrightarrow>
     (\<forall>n. (componentMeta m n = None) = (components m n = None)) \<and>
     (\<forall>n. constraints m n \<noteq> None \<longrightarrow> components m n \<noteq> None)"
proof -
  have "dom (componentMeta m) = dom (components m) \<longleftrightarrow>
          (\<forall>n. (componentMeta m n = None) = (components m n = None))"
    by (simp add: set_eq_iff domIff del: not_None_eq)
  moreover have "dom (constraints m) \<subseteq> dom (components m) \<longleftrightarrow>
          (\<forall>n. constraints m n \<noteq> None \<longrightarrow> components m n \<noteq> None)"
    by (auto simp: subset_eq domIff)
  ultimately show ?thesis by (simp add: aligned_def)
qed

lemma aligned_NewManager: "aligned (NewManager\<lparr>detector := d, metricsCollector := mc\<rparr>)"
  by (simp add: aligned_def NewManager_def)

lemma Register_cases:
  "Register m c now = (e, m') \<Longrightarrow>
     (e \<noteq> None \<and> m' = m) \<or>
     (\<exists>comp meta. e = None \<and> c = Some comp \<and> Name comp \<noteq> [] \<and> components m (Name comp) = None \<and>
        m' = m\<lparr>components := (components m)(Name comp \<mapsto> comp),
               componentMeta := (componentMeta m)(Name comp \<mapsto> meta)\<rparr>)"
  by (auto simp: Register_def Let_def split: option.splits if_splits)

lemma aligned_Register: "aligned m \<Longrightarrow> aligned (snd (Register m c now))"
proof -
  assume a: "aligned m"
  obtain e m' where r: "Register m c now = (e, m')" by (cases "Register m c now")
  from Register_cases [OF r] a have "aligned m'"
    by (auto simp: aligned_iff)
  with r show ?thesis by simp
qed

lemma RegisterWithConstraints_no_panic:
  "fst (RegisterWithConstraints m c cs now) \<noteq> Some (Panic msg)"
proof -
  obtain e m' where r: "Register m c now = (e, m')" by (cases "Register m c now")
  from Register_cases [OF r] show ?thesis
    using r by (auto simp: RegisterWithConstraints_def Register_def Let_def split: option.splits if_splits)
qed

lemma aligned_RegisterWithConstraints:
  "aligned m \<Longrightarrow> aligned (snd (RegisterWithConstraints m c cs now))"
proof -
  assume a: "aligned m"
  obtain e m' where r: "Register m c now = (e, m')" by (cases "Register m c now")
  from Register_cases [OF r] a r show ?thesis
    by (auto simp: RegisterWithConstraints_def Let_def aligned_iff split: option.splits)
qed

lemma aligned_Unregister: "aligned m \<Longrightarrow> aligned (snd (Unregister m name))"
  by (auto simp: Unregister_def aligned_iff)

lemma aligned_applyOp: "aligned m \<Longrightarrow> aligned (applyOp m op)"
  by (cases op) (simp_all add: aligned_Register aligned_RegisterWithConstraints aligned_Unregister)

lemma aligned_foldl: "aligned m \<Longrightarrow> aligned (foldl applyOp m ops)"
  by (induction ops arbitrary: m) (simp_all add: aligned_applyOp)

text \<open>
  C9. After every sequence of \<open>Register\<close>, \<open>RegisterWithConstraints\<close> and \<open>Unregister\<close> calls
  on a new manager the maps of the registry are aligned: a name has a meta record exactly
  when it has a component, and every name with stored constraints has a component. A
  successful \<open>Register\<close> leaves the component and a meta record under its name, and a
  successful \<open>Unregister\<close> leaves no component, no meta record and no constraints under
  the name.
\<close>

theorem registry_maps_aligned:
  "aligned (foldl applyOp (NewManager\<lparr>detector := d, metricsCollector := mc\<rparr>) ops) \<and>
   (Register m (Some c) now = (None, m') \<longrightarrow>
      components m' (Name c) = Some c \<and> componentMeta m' (Name c) \<noteq> None) \<and>
   (Unregister mu name = (None, mu') \<longrightarrow>
      components mu' name = None \<and> componentMeta mu' name = None \<and> constraints mu' name = None)"
proof (intro conjI impI)
  show "aligned (foldl applyOp (NewManager\<lparr>detector := d, metricsCollector := mc\<rparr>) ops)"
    by (rule aligned_foldl [OF aligned_NewManager])
next
  assume "Register m (Some c) now = (None, m')"
  from Register_cases [OF this]
  show "components m' (Name c) = Some c" and "componentMeta m' (Name c) \<noteq> None" by auto
next
  assume u: "Unregister mu name = (None, mu')"
  then show "components mu' name = None" and "componentMeta mu' name = None"
    and "constraints mu' name = None"
    by (auto simp: Unregister_def split: if_splits)
qed

theorem registry_maps_aligned_witness:
  "aligned (foldl applyOp NewManager
      [OpRegisterWithConstraints (Some usersService) [] ''2024-01-01T00:00:00Z'',
       OpRegister (Some usersService) ''2024-01-01T00:00:01Z'',
       OpUnregister ''users'']) \<and>
   fst (Register NewManager (Some usersService) ''2024-01-01T00:00:00Z'') = None \<and>
   components (snd (Register NewManager (Some usersService) ''2024-01-01T00:00:00Z'')) ''users''
     = Some usersService \<and>
   componentMeta (snd (Register NewManager (Some usersService) ''2024-01-01T00:00:00Z'')) ''users''
     \<noteq> None \<and>
   fst (Unregister (snd (Register NewManager (Some usersService) ''2024-01-01T00:00:00Z'')) ''users'') = None \<and>
   components (snd (Unregister (snd (Register NewManager (Some usersService) ''2024-01-01T00:00:00Z'')) ''users'')) ''users'' = None \<and>
   componentMeta (snd (Unregister (snd (Register NewManager (Some usersService) ''2024-01-01T00:00:00Z'')) ''users'')) ''users'' = None \<and>
   constraints (snd (Unregister (snd (Register NewManager (Some usersService) ''2024-01-01T00:00:00Z'')) ''users'')) ''users'' = None"
proof -
  define m1 where "m1 = snd (Register NewManager (Some usersService) ''2024-01-01T00:00:00Z'')"
  define m2 where "m2 = snd (Unregister m1 ''users'')"
  have r: "Register NewManager (Some usersService) ''2024-01-01T00:00:00Z'' = (None, m1)"
    by (simp add: m1_def Register_def NewManager_def usersService_simps Let_def)
  have c1: "components m1 ''users'' \<noteq> None"
    by (simp add: m1_def Register_def NewManager_def usersService_simps Let_def)
  have u: "Unregister m1 ''users'' = (None, m2)"
    using c1 by (simp add: m2_def Unregister_def)
  have n: "NewManager\<lparr>detector := NewDetector, metricsCollector := None\<rparr> = NewManager"
    by (simp add: NewManager_def)
  note t = registry_maps_aligned [where d = NewDetector and mc = None and m = NewManager
      and c = usersService and now = "''2024-01-01T00:00:00Z''" and m' = m1 and mu = m1
      and name = "''users''" and mu' = m2
      and ops = "[OpRegisterWithConstraints (Some usersService) [] ''2024-01-01T00:00:00Z'',
       OpRegister (Some usersService) ''2024-01-01T00:00:01Z'',
       OpUnregister ''users'']"]
  from t [unfolded n] r u
  have "aligned (foldl applyOp NewManager
      [OpRegisterWithConstraints (Some usersService) [] ''2024-01-01T00:00:00Z'',
       OpRegister (Some usersService) ''2024-01-01T00:00:01Z'',
       OpUnregister ''users'']) \<and>
    components m1 ''users'' = Some usersService \<and> componentMeta m1 ''users'' \<noteq> None \<and>
    components m2 ''users'' = None \<and> componentMeta m2 ''users'' = None \<and>
    constraints m2 ''users'' = None"
    by (simp add: usersService_simps)
  moreover have "fst (Register NewManager (Some usersService) ''2024-01-01T00:00:00Z'') = None"
    using r by simp
  moreover have "fst (Unregister m1 ''users'') = None"
    using u by simp
  ultimately show ?thesis
    unfolding m2_def m1_def by blast
qed

section \<open>Migrator: versions with equal numbers\<close>

text \<open>
  C10. \<open>Migrate\<close> and \<open>CanMigrate\<close> take two versions with equal (major, minor, patch) for the
  same version: whenever \<open>Compare(from, to) = 0\<close>, \<open>CanMigrate(from, to)\<close> is true and
  \<open>Migrate(from, to, x)\<close> returns \<open>x\<close>, also when the two versions differ in label or raw
  string and the table has no entry for the pair.
\<close>

theorem Migrate_CanMigrate_equal_numbers:
  "Compare from_v to_v = 0 \<Longrightarrow>
     CanMigrate m from_v to_v \<and> Migrate sprintf m from_v to_v x = Inr x"
  by (simp add: Migrate_def CanMigrate_def)

theorem Migrate_CanMigrate_equal_numbers_witness:
  "ParseVersion ''v1.0.0-beta'' \<noteq> ParseVersion ''v1.0.0'' \<and>
   Compare (ParseVersion ''v1.0.0-beta'') (ParseVersion ''v1.0.0'') = 0 \<and>
   migrations (NewMigrator ''users'')
     (migrationKey (ParseVersion ''v1.0.0-beta'') (ParseVersion ''v1.0.0'')) = None \<and>
   CanMigrate (NewMigrator ''users'') (ParseVersion ''v1.0.0-beta'') (ParseVersion ''v1.0.0'') \<and>
   Migrate (\<lambda>v. []) (NewMigrator ''users'') (ParseVersion ''v1.0.0-beta'') (ParseVersion ''v1.0.0'')
     (VString ''payload'') = Inr (VString ''payload'') \<and>
   ParseVersion ''latest'' \<noteq> ParseVersion ''current'' \<and>
   Compare (ParseVersion ''latest'') (ParseVersion ''current'') = 0 \<and>
   CanMigrate (NewMigrator ''users'') (ParseVersion ''latest'') (ParseVersion ''current'') \<and>
   Migrate (\<lambda>v. []) (NewMigrator ''users'') (ParseVersion ''latest'') (ParseVersion ''current'')
     (VString ''payload'') = Inr (VString ''payload'')"
proof -
  have lc: "Compare (ParseVersion ''latest'') (ParseVersion ''current'') = 0"
    by (simp add: ParseVersion_latest ParseVersion_current Compare_def)
  have ld: "ParseVersion ''latest'' \<noteq> ParseVersion ''current''"
    by (simp add: ParseVersion_latest ParseVersion_current)
  note l = Migrate_CanMigrate_equal_numbers [OF lc, of "NewMigrator ''users''" "\<lambda>v. []" "VString ''payload''"]
  have c: "Compare (ParseVersion ''v1.0.0-beta'') (ParseVersion ''v1.0.0'') = 0"
    by (simp add: ParseVersion_beta ParseVersion_v100 Compare_def)
  have d: "ParseVersion ''v1.0.0-beta'' \<noteq> ParseVersion ''v1.0.0''"
    by (simp add: ParseVersion_beta ParseVersion_v100)
  have e: "migrations (NewMigrator ''users'')
             (migrationKey (ParseVersion ''v1.0.0-beta'') (ParseVersion ''v1.0.0'')) = None"
    by (simp add: NewMigrator_def)
  from Migrate_CanMigrate_equal_numbers [OF c, of "NewMigrator ''users''" "\<lambda>v. []" "VString ''payload''"]
    c d e l lc ld
  show ?thesis by blast
qed

end
